theory Spec2Isabelle
  imports Main "HOL-Library.Char_ord" "HOL-Library.List_Lexorder"
begin

section \<open>Python strings\<close>

text \<open>
  A Python \<^verbatim>\<open>str\<close> is a \<^typ>\<open>string\<close> whose characters are its code points, all below
  256; text with a code point from 256 on is outside the type. On these code points
  \<^verbatim>\<open>lower()\<close> moves \<^verbatim>\<open>A\<close>-\<^verbatim>\<open>Z\<close> and the capital letters 192-222 (but not the sign 215)
  up by 32, and the white space that \<^verbatim>\<open>strip()\<close> and \<^verbatim>\<open>rstrip()\<close> remove is 9-13,
  28-32, 133 and 160. \<^verbatim>\<open>upper()\<close> is only ever compared with an ASCII text: 181, 223
  and 255, whose capitals are not below 256, are left as they are, which no such
  comparison can tell.
\<close>

definition char_lower :: "char \<Rightarrow> char" where
  "char_lower c =
     (if ((65::nat) \<le> of_char c \<and> of_char c \<le> (90::nat))
         \<or> ((192::nat) \<le> of_char c \<and> of_char c \<le> (222::nat) \<and> of_char c \<noteq> (215::nat))
      then char_of (of_char c + (32::nat)) else c)"



definition str_lower :: "string \<Rightarrow> string" where
  "str_lower s = map char_lower s"

definition is_space :: "char \<Rightarrow> bool" where
  "is_space c = ((9::nat) \<le> of_char c \<and> of_char c \<le> (13::nat)
                 \<or> (28::nat) \<le> of_char c \<and> of_char c \<le> (32::nat)
                 \<or> of_char c = (133::nat) \<or> of_char c = (160::nat))"

definition str_rstrip :: "string \<Rightarrow> string" where
  "str_rstrip s = rev (dropWhile is_space (rev s))"

definition str_strip :: "string \<Rightarrow> string" where
  "str_strip s = str_rstrip (dropWhile is_space s)"

definition str_startswith :: "string \<Rightarrow> string \<Rightarrow> bool" where
  "str_startswith s p = (take (length p) s = p)"

definition str_endswith :: "string \<Rightarrow> string \<Rightarrow> bool" where
  "str_endswith s p = (length p \<le> length s \<and> drop (length s - length p) s = p)"

text \<open>\<^verbatim>\<open>needle in s\<close> for strings.\<close>

fun str_contains :: "string \<Rightarrow> string \<Rightarrow> bool" where
  "str_contains [] needle = (needle = [])"
| "str_contains (c # cs) needle =
     (str_startswith (c # cs) needle \<or> str_contains cs needle)"


text \<open>\<^verbatim>\<open>s.split(sep)\<close> for a one-character separator: never the empty list.\<close>

fun str_split :: "char \<Rightarrow> string \<Rightarrow> string list" where
  "str_split sep [] = [[]]"
| "str_split sep (c # cs) =
     (if c = sep then [] # str_split sep cs
      else (c # hd (str_split sep cs)) # tl (str_split sep cs))"

text \<open>\<^verbatim>\<open>sep.join(parts)\<close>.\<close>

fun str_join :: "string \<Rightarrow> string list \<Rightarrow> string" where
  "str_join sep [] = []"
| "str_join sep [x] = x"
| "str_join sep (x # y # ys) = x @ sep @ str_join sep (y # ys)"

text \<open>\<^verbatim>\<open>str(n)\<close> for an integer, and \<^verbatim>\<open>s.zfill(width)\<close>.\<close>

definition digit_char :: "nat \<Rightarrow> char" where
  "digit_char d = char_of (48 + d)"

fun nat_digits :: "nat \<Rightarrow> string" where
  "nat_digits n =
     (if n < 10 then [digit_char n] else nat_digits (n div 10) @ [digit_char (n mod 10)])"

definition str_int :: "int \<Rightarrow> string" where
  "str_int i = (if i < 0 then CHR ''-'' # nat_digits (nat (- i)) else nat_digits (nat i))"

definition str_zfill :: "nat \<Rightarrow> string \<Rightarrow> string" where
  "str_zfill width s =
     (if width \<le> length s then s
      else (case s of
              [] \<Rightarrow> replicate width CHR ''0''
            | c # cs \<Rightarrow>
                if c = CHR ''+'' \<or> c = CHR ''-''
                then c # replicate (width - length s) CHR ''0'' @ cs
                else replicate (width - length s) CHR ''0'' @ s))"

section \<open>The path functions of \<^verbatim>\<open>os.path\<close>\<close>

text \<open>
  \<^verbatim>\<open>os.path\<close> is one of two modules. This section is its POSIX flavour
  (\<^verbatim>\<open>posixpath\<close>), which the models of the workers and of the window use: the
  separator is \<^verbatim>\<open>/\<close>; \<^verbatim>\<open>normpath\<close> keeps one or exactly two leading slashes, drops
  empty and \<^verbatim>\<open>.\<close> components and resolves \<^verbatim>\<open>..\<close> against the component before it.
  The Windows flavour (\<^verbatim>\<open>ntpath\<close>) follows in the next section.
\<close>

definition os_path_join :: "string \<Rightarrow> string \<Rightarrow> string" where
  "os_path_join a b =
     (if str_startswith b ''/'' then b
      else if a = [] \<or> str_endswith a ''/'' then a @ b
      else a @ ''/'' @ b)"

definition os_path_basename :: "string \<Rightarrow> string" where
  "os_path_basename p = rev (takeWhile (\<lambda>c. c \<noteq> CHR ''/'') (rev p))"

definition os_path_dirname :: "string \<Rightarrow> string" where
  "os_path_dirname p =
     (let head = rev (dropWhile (\<lambda>c. c \<noteq> CHR ''/'') (rev p))
      in if head \<noteq> [] \<and> head \<noteq> replicate (length head) CHR ''/''
         then rev (dropWhile (\<lambda>c. c = CHR ''/'') (rev head)) else head)"

definition os_path_isabs :: "string \<Rightarrow> bool" where
  "os_path_isabs p = str_startswith p ''/''"

definition normpath_step :: "nat \<Rightarrow> string list \<Rightarrow> string \<Rightarrow> string list" where
  "normpath_step initial_slashes new_comps part =
     (if part = [] \<or> part = ''.'' then new_comps
      else if part \<noteq> ''..'' \<or> (initial_slashes = 0 \<and> new_comps = [])
              \<or> (new_comps \<noteq> [] \<and> last new_comps = ''..'')
           then new_comps @ [part]
      else if new_comps \<noteq> [] then butlast new_comps
      else new_comps)"

definition initial_slashes_of :: "string \<Rightarrow> nat" where
  "initial_slashes_of path =
     (if str_startswith path ''/''
      then (if str_startswith path ''//'' \<and> \<not> str_startswith path ''///'' then 2 else 1)
      else 0)"

definition os_path_normpath :: "string \<Rightarrow> string" where
  "os_path_normpath path =
     (if path = [] then ''.''
      else
        let initial_slashes = initial_slashes_of path;
            comps = foldl (normpath_step initial_slashes) [] (str_split CHR ''/'' path);
            joined = replicate initial_slashes CHR ''/'' @ str_join ''/'' comps
        in if joined = [] then ''.'' else joined)"

section \<open>The path functions of \<^verbatim>\<open>os.path\<close> on Windows\<close>

text \<open>
  The Windows flavour of \<^verbatim>\<open>os.path\<close>, as \<^verbatim>\<open>ntpath.py\<close> of Python 3.11 defines it (where
  the interpreter has a native \<^verbatim>\<open>normpath\<close>, the library uses that one instead of its
  own definition, which is the one modelled). The separator is the backslash, the
  slash is accepted as well, and a path may start with a drive: a letter and a colon,
  or a UNC root \<^verbatim>\<open>//server/share\<close>.
\<close>

definition nt_sep :: char where
  "nt_sep = CHR 0x5C"


text \<open>\<^verbatim>\<open>p.replace('/', '\\')\<close>.\<close>

definition to_backslashes :: "string \<Rightarrow> string" where
  "to_backslashes p = map (\<lambda>c. if c = CHR ''/'' then nt_sep else c) p"












text \<open>
  The same for an absolute path on a lettered drive: the root (the drive letter, the
  colon and one backslash), the components that \<^verbatim>\<open>normpath\<close> keeps of what follows the
  root, and the shape of such components (no \<^verbatim>\<open>..\<close>, and neither separator inside).
\<close>

definition nt_root :: "char \<Rightarrow> string" where
  "nt_root d = [if d = CHR ''/'' then nt_sep else d, CHR '':'', nt_sep]"




section \<open>Device-directory normalisation\<close>

text \<open>
  \<^verbatim>\<open>CameraServerWorker.__init__\<close> normalises the directory it is given; the window's
  \<^verbatim>\<open>get_devices_dir_normalized\<close> does the same to the stripped text of the path field.
\<close>

definition normalize_devices_dir :: "string \<Rightarrow> string" where
  "normalize_devices_dir root_devices_dir =
     (let root = os_path_normpath root_devices_dir
      in if str_lower (os_path_basename root) \<noteq> ''devices''
         then os_path_join root ''devices'' else root)"


definition get_devices_dir_normalized :: "string \<Rightarrow> string" where
  "get_devices_dir_normalized path_edit_text =
     (let root_path = os_path_normpath (str_strip path_edit_text)
      in if str_lower (os_path_basename root_path) \<noteq> ''devices''
         then os_path_join root_path ''devices'' else root_path)"

definition get_active_state_dir :: "string \<Rightarrow> string" where
  "get_active_state_dir path_edit_text =
     os_path_dirname (get_devices_dir_normalized path_edit_text)"

section \<open>Exceptions\<close>

text \<open>
  An exception raised by a collaborator, as the handlers read it: \<open>exn_str\<close> is
  \<^verbatim>\<open>str(e)\<close> and \<open>exn_traceback\<close> is the text of \<^verbatim>\<open>traceback.format_exception(e)\<close>.
\<close>

datatype exn = Exn (exn_str: string) (exn_traceback: string)

section \<open>Image discovery\<close>

text \<open>
  The directory tree as \<^verbatim>\<open>find_jpg_images\<close> reads it: \<^verbatim>\<open>os.path.isdir\<close> and
  \<^verbatim>\<open>os.listdir\<close> (which lists entry names in arbitrary order, or raises).
\<close>

record filesystem =
  os_path_isdir :: "string \<Rightarrow> bool"
  os_listdir :: "string \<Rightarrow> exn + string list"

definition is_jpg_name :: "string \<Rightarrow> bool" where
  "is_jpg_name name = str_endswith (str_lower name) ''.jpg''"

definition find_jpg_images :: "filesystem \<Rightarrow> string \<Rightarrow> exn + string list" where
  "find_jpg_images fs devices_dir =
     (if \<not> os_path_isdir fs devices_dir then Inr []
      else (case os_listdir fs devices_dir of
              Inl e \<Rightarrow> Inl e
            | Inr names \<Rightarrow>
                Inr (map (os_path_join devices_dir) (filter is_jpg_name (sort names)))))"

section \<open>Signals and calls of the workers\<close>

text \<open>
  A worker's run is observed as the sequence of its effects, in program order: the
  signals it emits and the calls it makes on the file system, on the capture services
  and on the child process.
\<close>

datatype event =
    Log string
  | RunningChanged bool
  | Finished
  | ModeChanged string
  | Rmtree string
  | Makedirs string
  | Construct string int string
  | SvcStart int
  | SvcStop int
  | ThreadJoin int
  | Sleep
  | MessageBoxCritical string string
  | Popen "string list" string nat
  | ProcessWait

text \<open>
  The outcome of a run body: the effects so far and the exception that ended it, if
  one did. \<open>None\<close> is a body that never returns.
\<close>

type_synonym outcome = "event list \<times> exn option"

text \<open>
  \<^verbatim>\<open>try: body / except Exception as e: handler / finally: final\<close>. Every handler of the
  program only emits signals, so nothing is raised after the body.
\<close>

definition try_except_finally ::
  "outcome option \<Rightarrow> (exn \<Rightarrow> event list) \<Rightarrow> event list \<Rightarrow> outcome option" where
  "try_except_finally body handler final =
     (case body of
        None \<Rightarrow> None
      | Some (evs, None) \<Rightarrow> Some (evs @ final, None)
      | Some (evs, Some e) \<Rightarrow> Some (evs @ handler e @ final, None))"

text \<open>
  \<^verbatim>\<open>while not self._stop_event.is_set(): time.sleep(1)\<close>, where \<open>is_set k\<close> is what the
  \<open>k\<close>-th poll of the flag sees. The result is the number of sleeps; the loop does
  not return when no poll sees the flag set.
\<close>

partial_function (option) wait_for_stop :: "(nat \<Rightarrow> bool) \<Rightarrow> nat \<Rightarrow> nat option" where
  "wait_for_stop is_set k = (if is_set k then Some k else wait_for_stop is_set (Suc k))"

declare wait_for_stop.simps [code]

section \<open>CameraServerWorker\<close>

text \<open>
  \<^verbatim>\<open>BackgroundCameraService\<close> is an external collaborator. An instance is described by
  what the worker reads and calls: its \<^verbatim>\<open>camera_id\<close> attribute, whether \<^verbatim>\<open>start()\<close> and
  \<^verbatim>\<open>stop()\<close> raise, and its \<^verbatim>\<open>thread\<close> attribute (\<open>None\<close> when the attribute is missing or
  is \<^verbatim>\<open>None\<close>, otherwise whether \<^verbatim>\<open>join\<close> raises).
\<close>

record service =
  camera_id :: string
  start_raises :: "exn option"
  stop_raises :: "exn option"
  thread :: "exn option option"

record camera_env =
  makedirs_raises :: "string \<Rightarrow> exn option"
  new_service :: "string \<Rightarrow> int \<Rightarrow> string \<Rightarrow> exn + service"
  stop_event_is_set :: "nat \<Rightarrow> bool"

record camera_server_worker =
  root_devices_dir :: string
  camera_indices :: "int list"

definition CameraServerWorker_init :: "string \<Rightarrow> int list \<Rightarrow> camera_server_worker" where
  "CameraServerWorker_init dir indices =
     \<lparr>root_devices_dir = normalize_devices_dir dir, camera_indices = indices\<rparr>"

definition latest_frame_file :: "string \<Rightarrow> int \<Rightarrow> string" where
  "latest_frame_file root c =
     os_path_join root (''camera_'' @ str_zfill 3 (str_int c) @ ''_frame.jpg'')"

text \<open>The four loops over the services; each service is kept with its camera index.\<close>

fun build_services ::
  "camera_env \<Rightarrow> string \<Rightarrow> int list \<Rightarrow> (int \<times> service) list
     \<Rightarrow> event list \<times> (exn + (int \<times> service) list)" where
  "build_services env root [] running_services = ([], Inr running_services)"
| "build_services env root (c # cs) running_services =
     (let camera_str = str_zfill 3 (str_int c);
          call = Construct camera_str c (latest_frame_file root c)
      in case new_service env camera_str c (latest_frame_file root c) of
           Inl e \<Rightarrow> ([call], Inl e)
         | Inr svc \<Rightarrow>
             (case build_services env root cs (running_services @ [(c, svc)]) of
                (evs, r) \<Rightarrow> (call # evs, r)))"

fun start_services :: "(int \<times> service) list \<Rightarrow> outcome" where
  "start_services [] = ([], None)"
| "start_services ((c, svc) # rest) =
     (let calls = [Log (''Starting '' @ camera_id svc @ '' ...''), SvcStart c]
      in case start_raises svc of
           Some e \<Rightarrow> (calls, Some e)
         | None \<Rightarrow> (case start_services rest of (evs, r) \<Rightarrow> (calls @ Sleep # evs, r)))"

fun stop_services :: "(int \<times> service) list \<Rightarrow> event list" where
  "stop_services [] = []"
| "stop_services ((c, svc) # rest) =
     SvcStop c #
     (case stop_raises svc of
        None \<Rightarrow> []
      | Some e \<Rightarrow>
          [Log (''Error during stop() on '' @ camera_id svc @ '': '' @ exn_str e)])
     @ stop_services rest"

fun join_services :: "(int \<times> service) list \<Rightarrow> event list" where
  "join_services [] = []"
| "join_services ((c, svc) # rest) =
     (case thread svc of
        None \<Rightarrow> []
      | Some r \<Rightarrow>
          ThreadJoin c #
          (case r of
             None \<Rightarrow> []
           | Some e \<Rightarrow>
               [Log (''Error during join() on '' @ camera_id svc @ '': '' @ exn_str e)]))
     @ join_services rest"

definition camera_server_body :: "camera_env \<Rightarrow> camera_server_worker \<Rightarrow> outcome option" where
  "camera_server_body env w =
     (let root = root_devices_dir w;
          prepare = [Log ''Background Camera Server System'', RunningChanged True,
                     Log (''Preparing directory: '' @ root), Rmtree root, Makedirs root]
      in case makedirs_raises env root of
           Some e \<Rightarrow> Some (prepare, Some e)
         | None \<Rightarrow>
             if camera_indices w = []
             then Some (prepare @ [Log ''Searching For Valid Cameras...'',
                                   Log ''No cameras selected.''], None)
             else
               let announce = prepare @
                     [Log ''Searching For Valid Cameras...'',
                      Log (''Found '' @ str_int (int (length (camera_indices w))) @ '' Cameras''),
                      Log ''Starting Background Services...'']
               in case build_services env root (camera_indices w) [] of
                    (built, Inl e) \<Rightarrow> Some (announce @ built, Some e)
                  | (built, Inr running_services) \<Rightarrow>
                      (case start_services running_services of
                         (started, Some e) \<Rightarrow> Some (announce @ built @ started, Some e)
                       | (started, None) \<Rightarrow>
                           (case wait_for_stop (stop_event_is_set env) 0 of
                              None \<Rightarrow> None
                            | Some n \<Rightarrow>
                                Some (announce @ built @ started
                                      @ [Log ''All Service Is Running'']
                                      @ replicate n Sleep
                                      @ [Log ''Stopping all services...'']
                                      @ stop_services running_services
                                      @ join_services running_services
                                      @ [Log ''All Services are Finished.''], None))))"

definition CameraServerWorker_run :: "camera_env \<Rightarrow> camera_server_worker \<Rightarrow> outcome option" where
  "CameraServerWorker_run env w =
     try_except_finally (camera_server_body env w)
       (\<lambda>e. [Log (''FATAL ERROR:'' @ [CHR 0x0A] @ exn_traceback e),
              MessageBoxCritical ''Camera Server Error'' (exn_str e)])
       [RunningChanged False, Finished]"

section \<open>ImageSourceWorker\<close>

record image_source_worker =
  devices_dir :: string
  selected_images :: "string list"

text \<open>What the run emits before it starts polling the stop flag.\<close>

definition image_source_announce :: "image_source_worker \<Rightarrow> event list" where
  "image_source_announce w =
     [RunningChanged True,
      Log ''Image Source Mode (no camera capture)'',
      Log (''Devices folder: '' @ devices_dir w)]
     @ (if selected_images w = [] then [Log ''No images selected.'']
        else Log (''Using '' @ str_int (int (length (selected_images w))) @ '' image(s):'')
             # map (\<lambda>p. Log ('' - '' @ os_path_basename p)) (selected_images w))"

definition image_source_body :: "(nat \<Rightarrow> bool) \<Rightarrow> image_source_worker \<Rightarrow> outcome option" where
  "image_source_body is_set w =
     (case wait_for_stop is_set 0 of
        None \<Rightarrow> None
      | Some n \<Rightarrow>
          Some (image_source_announce w @ replicate n Sleep
                @ [Log ''Image source stopped.''], None))"

definition ImageSourceWorker_run :: "(nat \<Rightarrow> bool) \<Rightarrow> image_source_worker \<Rightarrow> outcome option" where
  "ImageSourceWorker_run is_set w =
     try_except_finally (image_source_body is_set w)
       (\<lambda>e. [Log (''FATAL ERROR:'' @ [CHR 0x0A] @ exn_traceback e)])
       [RunningChanged False, Finished]"

section \<open>The tool workers\<close>

text \<open>
  What one call of \<^verbatim>\<open>stop()\<close> meets: whether \<^verbatim>\<open>poll()\<close> finds the child alive, and which
  of the calls on the child raise. \<^verbatim>\<open>stop()\<close> runs on the controlling thread; its calls
  on the child are a sequence of their own.
\<close>

record stop_outcomes =
  still_running :: bool
  send_signal_raises :: "exn option"
  grace_wait_raises :: "exn option"
  terminate_raises :: "exn option"
  wait_raises :: "exn option"
  kill_raises :: "exn option"

datatype child_call = Poll | SendCtrlBreak | WaitTimeout nat | Terminate | Kill

text \<open>
  The soft stop, \<^verbatim>\<open>if os.name == "nt": ... else: terminate()\<close>: its calls and the
  exception that leaves it.
\<close>

definition soft_stop :: "nat \<Rightarrow> string \<Rightarrow> stop_outcomes \<Rightarrow> child_call list \<times> exn option" where
  "soft_stop timeout os so =
     (if os = ''nt'' then
        (case send_signal_raises so of
           Some e \<Rightarrow> ([SendCtrlBreak], Some e)
         | None \<Rightarrow>
             (case grace_wait_raises so of
                None \<Rightarrow> ([SendCtrlBreak, WaitTimeout timeout], None)
              | Some timed_out \<Rightarrow>
                  ([SendCtrlBreak, WaitTimeout timeout, Terminate], terminate_raises so)))
      else ([Terminate], terminate_raises so))"

text \<open>
  The outer \<^verbatim>\<open>try\<close> of \<^verbatim>\<open>stop()\<close>: the soft stop, then a bounded wait and a kill when
  the wait raises; whatever leaves it is answered by one more kill, whose own
  exception is dropped.
\<close>

definition terminate_child :: "nat \<Rightarrow> string \<Rightarrow> stop_outcomes \<Rightarrow> child_call list" where
  "terminate_child timeout os so =
     (case soft_stop timeout os so of
        (calls, Some e) \<Rightarrow> calls @ [Kill]
      | (calls, None) \<Rightarrow>
          (case wait_raises so of
             None \<Rightarrow> calls @ [WaitTimeout timeout]
           | Some timed_out \<Rightarrow>
               (case kill_raises so of
                  None \<Rightarrow> calls @ [WaitTimeout timeout, Kill]
                | Some e \<Rightarrow> calls @ [WaitTimeout timeout, Kill, Kill])))"

text \<open>
  A spawned child: its process id, what each \<^verbatim>\<open>readline\<close> on its output gives until
  end of file, and its exit code. A read returns a line or raises (the pipe is
  opened as text, so undecodable output raises \<^verbatim>\<open>UnicodeDecodeError\<close>); with each read
  comes the \<^verbatim>\<open>stop()\<close> call, if any, that the controlling thread makes while the worker
  is in that read, before the worker's next test of \<^verbatim>\<open>self._stop\<close>.
\<close>

record read =
  read_result :: "exn + string"
  stop_during :: "stop_outcomes option"

record process =
  pid :: int
  stdout_reads :: "read list"
  returncode :: int

record tool_env =
  os_path_isfile :: "string \<Rightarrow> bool"
  os_name :: string
  subprocess_Popen :: "string list \<Rightarrow> string \<Rightarrow> exn + process"

definition creationflags_of :: "tool_env \<Rightarrow> nat" where
  "creationflags_of env = (if os_name env = ''nt'' then 512 else 0)"

record shelf_scan_worker =
  project_root :: string
  mode :: string
  python_exe :: string
  stop_flag :: bool
  child :: "process option"
  shelf_scan_path :: string

definition python_exe_or :: "string option \<Rightarrow> string \<Rightarrow> string" where
  "python_exe_or given sys_executable =
     (case given of None \<Rightarrow> sys_executable
      | Some p \<Rightarrow> if p = [] then sys_executable else p)"

definition ShelfScanWorker_init ::
  "string \<Rightarrow> string \<Rightarrow> string \<Rightarrow> string option \<Rightarrow> exn + shelf_scan_worker" where
  "ShelfScanWorker_init sys_executable root m given =
     (if m \<noteq> ''setup'' \<and> m \<noteq> ''service'' then Inl (Exn [] ''AssertionError'')
      else Inr \<lparr>project_root = root, mode = m,
                python_exe = python_exe_or given sys_executable,
                stop_flag = False,
                child = None,
                shelf_scan_path =
                  os_path_join (os_path_join root ''product_scan'') ''shelf_scan.py''\<rparr>)"

text \<open>
  \<^verbatim>\<open>ShelfScanWorker.stop\<close>: it sets \<^verbatim>\<open>self._stop\<close>, and when there is a child that
  \<^verbatim>\<open>poll()\<close> finds alive it stops the child, with bounds of 3.
\<close>

definition ShelfScanWorker_stop ::
  "string \<Rightarrow> stop_outcomes \<Rightarrow> shelf_scan_worker \<Rightarrow> child_call list \<times> shelf_scan_worker" where
  "ShelfScanWorker_stop os so w =
     ((case child w of
         None \<Rightarrow> []
       | Some p \<Rightarrow> Poll # (if still_running so then terminate_child 3 os so else [])),
      w\<lparr>stop_flag := True\<rparr>)"

text \<open>
  The reader loop of the scan tool, \<^verbatim>\<open>for line in iter(readline, '')\<close>: end of file is
  the end of the reads or an empty read; a read that raises ends the loop with its
  exception; a \<^verbatim>\<open>stop()\<close> that comes during a read has set \<^verbatim>\<open>self._stop\<close> by the time the
  line is tested.
\<close>

fun shelf_reader_loop :: "string \<Rightarrow> shelf_scan_worker \<Rightarrow> read list \<Rightarrow> outcome" where
  "shelf_reader_loop os w [] = ([], None)"
| "shelf_reader_loop os w (r # rest) =
     (let w' = (case stop_during r of
                  None \<Rightarrow> w
                | Some so \<Rightarrow> snd (ShelfScanWorker_stop os so w))
      in case read_result r of
           Inl e \<Rightarrow> ([], Some e)
         | Inr line \<Rightarrow>
             if line = [] then ([], None)
             else if stop_flag w' \<and> mode w' = ''service'' then ([], None)
             else if line = [] then ([], None)
             else (case shelf_reader_loop os w' rest of
                     (evs, raised) \<Rightarrow> (Log (str_rstrip line) # evs, raised)))"

definition shelf_scan_cmd :: "shelf_scan_worker \<Rightarrow> string list" where
  "shelf_scan_cmd w = [python_exe w, ''-u'', shelf_scan_path w, mode w]"

text \<open>The two announcing lines, the mode signal and the \<^verbatim>\<open>Popen\<close> call.\<close>

definition shelf_scan_spawn :: "tool_env \<Rightarrow> shelf_scan_worker \<Rightarrow> event list" where
  "shelf_scan_spawn env w =
     [Log (''Executing with interpreter: '' @ python_exe w),
      Log (''Command: '' @ str_join '' '' (shelf_scan_cmd w)),
      ModeChanged (mode w),
      Popen (shelf_scan_cmd w) (project_root w) (creationflags_of env)]"

definition shelf_scan_body :: "tool_env \<Rightarrow> shelf_scan_worker \<Rightarrow> outcome" where
  "shelf_scan_body env w =
     (if \<not> os_path_isfile env (shelf_scan_path w)
      then ([Log (''Not found: '' @ shelf_scan_path w)], None)
      else
        case subprocess_Popen env (shelf_scan_cmd w) (project_root w) of
          Inl e \<Rightarrow> (shelf_scan_spawn env w, Some e)
        | Inr p \<Rightarrow>
            (case shelf_reader_loop (os_name env) (w\<lparr>child := Some p\<rparr>) (stdout_reads p) of
               (forwarded, Some e) \<Rightarrow>
                 (shelf_scan_spawn env w
                  @ [Log (''shelf_scan.py ('' @ mode w @ '') started (pid=''
                          @ str_int (pid p) @ '')'')]
                  @ forwarded, Some e)
             | (forwarded, None) \<Rightarrow>
                 (shelf_scan_spawn env w
                  @ [Log (''shelf_scan.py ('' @ mode w @ '') started (pid=''
                          @ str_int (pid p) @ '')'')]
                  @ forwarded
                  @ [ProcessWait,
                     Log (''shelf_scan.py ('' @ mode w @ '') exited with code ''
                          @ str_int (returncode p))], None)))"

definition ShelfScanWorker_run :: "tool_env \<Rightarrow> shelf_scan_worker \<Rightarrow> outcome option" where
  "ShelfScanWorker_run env w =
     try_except_finally (Some (shelf_scan_body env w))
       (\<lambda>e. [Log (''Error running shelf_scan.py ('' @ mode w @ ''): '' @ exn_str e)])
       [Finished]"

record cam_display_worker =
  display_project_root :: string
  root_dir :: string
  title :: string
  display_python_exe :: string
  display_child :: "process option"

definition CamDisplayWorker_init ::
  "string \<Rightarrow> string \<Rightarrow> string \<Rightarrow> string \<Rightarrow> string option \<Rightarrow> cam_display_worker" where
  "CamDisplayWorker_init sys_executable root dir t given =
     \<lparr>display_project_root = root, root_dir = dir, title = t,
      display_python_exe = python_exe_or given sys_executable,
      display_child = None\<rparr>"

text \<open>\<^verbatim>\<open>CamDisplayWorker.stop\<close>: no flag, and bounds of 2.\<close>

definition CamDisplayWorker_stop ::
  "string \<Rightarrow> stop_outcomes \<Rightarrow> cam_display_worker \<Rightarrow> child_call list" where
  "CamDisplayWorker_stop os so w =
     (case display_child w of
        None \<Rightarrow> []
      | Some p \<Rightarrow> Poll # (if still_running so then terminate_child 2 os so else []))"

fun display_reader_loop :: "read list \<Rightarrow> outcome" where
  "display_reader_loop [] = ([], None)"
| "display_reader_loop (r # rest) =
     (case read_result r of
        Inl e \<Rightarrow> ([], Some e)
      | Inr line \<Rightarrow>
          if line = [] then ([], None)
          else if line = [] then ([], None)
          else (case display_reader_loop rest of
                  (evs, raised) \<Rightarrow> (Log (str_rstrip line) # evs, raised)))"

definition display_path_of :: "cam_display_worker \<Rightarrow> string" where
  "display_path_of w =
     os_path_join (os_path_join (display_project_root w) ''cam_display'') ''display_camera.py''"

definition cam_display_cmd :: "cam_display_worker \<Rightarrow> string list" where
  "cam_display_cmd w =
     [display_python_exe w, ''-u'', display_path_of w,
      ''--root-dir'', root_dir w, ''--title'', title w]"

text \<open>The announcing line and the \<^verbatim>\<open>Popen\<close> call.\<close>

definition cam_display_spawn :: "tool_env \<Rightarrow> cam_display_worker \<Rightarrow> event list" where
  "cam_display_spawn env w =
     [Log (''Executing cam display: '' @ str_join '' '' (cam_display_cmd w)),
      Popen (cam_display_cmd w) (display_project_root w) (creationflags_of env)]"

definition cam_display_body :: "tool_env \<Rightarrow> cam_display_worker \<Rightarrow> outcome" where
  "cam_display_body env w =
     (if \<not> os_path_isfile env (display_path_of w)
      then ([Log (''Not found: '' @ display_path_of w)], None)
      else
        case subprocess_Popen env (cam_display_cmd w) (display_project_root w) of
          Inl e \<Rightarrow> (cam_display_spawn env w, Some e)
        | Inr p \<Rightarrow>
            (case display_reader_loop (stdout_reads p) of
               (forwarded, Some e) \<Rightarrow>
                 (cam_display_spawn env w
                  @ [Log (''cam_display started (pid='' @ str_int (pid p) @ '')'')]
                  @ forwarded, Some e)
             | (forwarded, None) \<Rightarrow>
                 (cam_display_spawn env w
                  @ [Log (''cam_display started (pid='' @ str_int (pid p) @ '')'')]
                  @ forwarded
                  @ [ProcessWait,
                     Log (''cam_display exited with code '' @ str_int (returncode p))],
                  None)))"

definition CamDisplayWorker_run :: "tool_env \<Rightarrow> cam_display_worker \<Rightarrow> outcome option" where
  "CamDisplayWorker_run env w =
     try_except_finally (Some (cam_display_body env w))
       (\<lambda>e. [Log (''Error running cam_display: '' @ exn_str e)])
       [Finished]"

section \<open>The window and its three worker holders\<close>

text \<open>
  The window keeps one reference per slot (\<^verbatim>\<open>active_worker\<close>, \<^verbatim>\<open>shelf_worker\<close>,
  \<^verbatim>\<open>display_worker\<close>). The thread objects live in a store indexed by identity, so a
  worker that a holder no longer refers to is still there, with its own
  \<^verbatim>\<open>isRunning()\<close>. \<^verbatim>\<open>QThread.start()\<close> makes \<^verbatim>\<open>isRunning()\<close> true; it is false again when
  the thread's \<^verbatim>\<open>run\<close> has returned.
\<close>

datatype slot = SourceSlot | ScanToolSlot | DisplayToolSlot

datatype worker_kind =
    CameraServer camera_server_worker
  | ImageSource image_source_worker
  | ShelfScan shelf_scan_worker
  | CamDisplay cam_display_worker

record qthread =
  worker :: worker_kind
  isRunning :: bool
  stop_requested :: bool

fun slot_of :: "worker_kind \<Rightarrow> slot" where
  "slot_of (CameraServer w) = SourceSlot"
| "slot_of (ImageSource w) = SourceSlot"
| "slot_of (ShelfScan w) = ScanToolSlot"
| "slot_of (CamDisplay w) = DisplayToolSlot"

text \<open>
  The data of the selected combo item: \<^verbatim>\<open>"ALL_IMG"\<close>, \<^verbatim>\<open>"ALL_CAM"\<close>, a file name, a
  camera index, or \<^verbatim>\<open>None\<close> for an empty combo.
\<close>

datatype item = ALL_IMG | ALL_CAM | ImageName string | CameraIndex int | NoItem

fun item_str :: "item \<Rightarrow> string" where
  "item_str ALL_IMG = ''ALL_IMG''"
| "item_str ALL_CAM = ''ALL_CAM''"
| "item_str (ImageName n) = n"
| "item_str (CameraIndex i) = str_int i"
| "item_str NoItem = ''None''"

text \<open>
  \<^verbatim>\<open>int(sel)\<close>: the strings the combo holds are \<^verbatim>\<open>ALL_IMG\<close> and names that end in
  \<^verbatim>\<open>.jpg\<close>, none of which is an integer literal.
\<close>

fun item_int :: "item \<Rightarrow> exn + int" where
  "item_int (CameraIndex i) = Inr i"
| "item_int NoItem = Inl (Exn ''int() argument must be a string'' ''TypeError'')"
| "item_int it = Inl (Exn (''invalid literal for int(): '' @ item_str it) ''ValueError'')"

record main_window =
  path_edit_text :: string
  source_data :: string
  item_data :: item
  display_title_text :: string
  detected_cameras :: "int list"
  detected_images :: "string list"
  image_name_to_path :: "string \<Rightarrow> string option"
  project_root_dir :: string
  sys_executable :: string
  active_worker :: "nat option"
  shelf_worker :: "nat option"
  display_worker :: "nat option"
  threads :: "qthread list"

datatype gui_event =
    InformationBox string string
  | WarningBox string string
  | AppendLog string
  | ToggleSourceButtons bool
  | ToggleShelfServiceButtons bool
  | ToggleDisplayButtons bool
  | GuiMakedirs string
  | Raised exn

text \<open>\<^verbatim>\<open>holder and holder.isRunning()\<close>.\<close>

definition holder_running :: "main_window \<Rightarrow> nat option \<Rightarrow> bool" where
  "holder_running mw holder =
     (case holder of None \<Rightarrow> False
      | Some i \<Rightarrow> i < length (threads mw) \<and> isRunning (threads mw ! i))"

definition holder_of :: "main_window \<Rightarrow> slot \<Rightarrow> nat option" where
  "holder_of mw s =
     (case s of SourceSlot \<Rightarrow> active_worker mw
      | ScanToolSlot \<Rightarrow> shelf_worker mw
      | DisplayToolSlot \<Rightarrow> display_worker mw)"

text \<open>Constructing a worker object and calling \<^verbatim>\<open>start()\<close> on it.\<close>

definition new_started_thread :: "worker_kind \<Rightarrow> qthread" where
  "new_started_thread k = \<lparr>worker = k, isRunning = True, stop_requested = False\<rparr>"

definition wire_source_worker :: "main_window \<Rightarrow> worker_kind \<Rightarrow> main_window" where
  "wire_source_worker mw k =
     mw\<lparr>active_worker := Some (length (threads mw)),
        threads := threads mw @ [new_started_thread k]\<rparr>"

definition start_source :: "main_window \<Rightarrow> gui_event list \<times> main_window" where
  "start_source mw =
     (if holder_running mw (active_worker mw)
      then ([InformationBox ''Running'' ''Source is already running.''], mw)
      else
        let dir = get_devices_dir_normalized (path_edit_text mw) in
        if source_data mw = ''images'' then
          (let chosen =
                 (if item_data mw = ALL_IMG
                  then (if detected_images mw = []
                        then Inl (WarningBox ''No Images'' ''No images found. Try 'Rescan'.'')
                        else Inr (detected_images mw))
                  else (case image_name_to_path mw (item_str (item_data mw)) of
                          None \<Rightarrow> Inl (WarningBox ''Selection'' ''Selected image not found.'')
                        | Some path \<Rightarrow>
                            if path = []
                            then Inl (WarningBox ''Selection'' ''Selected image not found.'')
                            else Inr [path]))
           in case chosen of
                Inl warning \<Rightarrow> ([warning], mw)
              | Inr selected_list \<Rightarrow>
                  ([ToggleSourceButtons True,
                    AppendLog (''=== Starting Image Source (images=''
                               @ str_int (int (length selected_list)) @ '') ==='')],
                   wire_source_worker mw
                     (ImageSource \<lparr>devices_dir = dir, selected_images = selected_list\<rparr>)))
        else
          (let chosen =
                 (if item_data mw = ALL_CAM
                  then (if detected_cameras mw = []
                        then Inl (WarningBox ''No Cameras'' ''No cameras detected. Try 'Rescan'.'')
                        else Inr (detected_cameras mw))
                  else (case item_int (item_data mw) of
                          Inl e \<Rightarrow> Inl (Raised e)
                        | Inr i \<Rightarrow> Inr [i]))
           in case chosen of
                Inl refusal \<Rightarrow> ([refusal], mw)
              | Inr camera_list \<Rightarrow>
                  ([ToggleSourceButtons True,
                    AppendLog (''=== Starting Camera Server (cameras=['' @
                               str_join '', '' (map str_int camera_list) @ '']) ==='')],
                   wire_source_worker mw
                     (CameraServer (CameraServerWorker_init dir camera_list)))))"

definition start_shelf_worker ::
  "main_window \<Rightarrow> string \<Rightarrow> gui_event list \<Rightarrow> gui_event list
     \<Rightarrow> gui_event list \<times> main_window" where
  "start_shelf_worker mw m before after =
     (case ShelfScanWorker_init (sys_executable mw) (project_root_dir mw) m
             (Some (sys_executable mw)) of
        Inl e \<Rightarrow> (before @ [Raised e], mw)
      | Inr w \<Rightarrow>
          (before @ after,
           mw\<lparr>shelf_worker := Some (length (threads mw)),
              threads := threads mw @ [new_started_thread (ShelfScan w)]\<rparr>))"

definition run_shelf_setup :: "main_window \<Rightarrow> gui_event list \<times> main_window" where
  "run_shelf_setup mw =
     (if holder_running mw (shelf_worker mw)
      then ([InformationBox ''Shelf'' ''Another shelf_scan is running.''], mw)
      else start_shelf_worker mw ''setup''
             [AppendLog ''=== Starting shelf_scan.py setup ===''] [])"

definition start_shelf_service :: "main_window \<Rightarrow> gui_event list \<times> main_window" where
  "start_shelf_service mw =
     (if holder_running mw (shelf_worker mw)
      then ([InformationBox ''Shelf Service'' ''Shelf service already running.''], mw)
      else start_shelf_worker mw ''service''
             [AppendLog ''=== Starting shelf_scan.py service ==='']
             [ToggleShelfServiceButtons True])"

definition start_cam_display :: "exn option \<Rightarrow> main_window \<Rightarrow> gui_event list \<times> main_window" where
  "start_cam_display makedirs_result mw =
     (if holder_running mw (display_worker mw)
      then ([InformationBox ''Cam Display'' ''Cam display already running.''], mw)
      else
        let product_visual =
              os_path_join (get_active_state_dir (path_edit_text mw)) ''product_visual''
        in case makedirs_result of
             Some e \<Rightarrow> ([GuiMakedirs product_visual, Raised e], mw)
           | None \<Rightarrow>
               let t = (if str_strip (display_title_text mw) = [] then ''Product Detection''
                        else str_strip (display_title_text mw))
               in ([GuiMakedirs product_visual,
                    AppendLog (''=== Opening Cam Display (root='' @ product_visual
                               @ '', title='' @ t @ '') ===''),
                    ToggleDisplayButtons True],
                   mw\<lparr>display_worker := Some (length (threads mw)),
                      threads := threads mw @
                        [new_started_thread
                           (CamDisplay (CamDisplayWorker_init (sys_executable mw)
                              (project_root_dir mw) product_visual t
                              (Some (sys_executable mw))))]\<rparr>))"

text \<open>
  The stop requests: \<^verbatim>\<open>request_stop()\<close> of a source worker and \<^verbatim>\<open>stop()\<close> of the scan
  tool set the worker's flag; the display tool has none.
\<close>

definition request_stop_at :: "main_window \<Rightarrow> nat \<Rightarrow> main_window" where
  "request_stop_at mw i =
     mw\<lparr>threads := (threads mw)[i := (threads mw ! i)\<lparr>stop_requested := True\<rparr>]\<rparr>"

definition stop_source :: "main_window \<Rightarrow> gui_event list \<times> main_window" where
  "stop_source mw =
     (if holder_running mw (active_worker mw)
      then ([AppendLog ''=== Stop requested (source) ===''],
            request_stop_at mw (the (active_worker mw)))
      else ([AppendLog ''Source is not running.''], mw))"

definition stop_shelf_service :: "main_window \<Rightarrow> gui_event list \<times> main_window" where
  "stop_shelf_service mw =
     (if holder_running mw (shelf_worker mw)
      then ([AppendLog ''=== Stop requested (shelf service) ===''],
            request_stop_at mw (the (shelf_worker mw)))
      else ([AppendLog ''Shelf service is not running.''], mw))"

definition stop_cam_display :: "main_window \<Rightarrow> gui_event list \<times> main_window" where
  "stop_cam_display mw =
     (if holder_running mw (display_worker mw)
      then ([AppendLog ''=== Close requested (cam display) ===''], mw)
      else ([AppendLog ''Cam display is not running.''], mw))"

text \<open>The thread of worker \<open>i\<close> ends: its \<^verbatim>\<open>run\<close> has returned.\<close>

definition thread_exit :: "nat \<Rightarrow> main_window \<Rightarrow> main_window" where
  "thread_exit i mw =
     (if i < length (threads mw)
      then mw\<lparr>threads := (threads mw)[i := (threads mw ! i)\<lparr>isRunning := False\<rparr>]\<rparr>
      else mw)"

text \<open>The user edits the path, the combos or the title, or a rescan refills the lists.\<close>

definition set_inputs :: "main_window \<Rightarrow> main_window \<Rightarrow> main_window" where
  "set_inputs ui mw =
     ui\<lparr>active_worker := active_worker mw, shelf_worker := shelf_worker mw,
        display_worker := display_worker mw, threads := threads mw\<rparr>"

datatype action =
    StartSource
  | StopSource
  | RunShelfSetup
  | StartShelfService
  | StopShelfService
  | StartCamDisplay "exn option"
  | StopCamDisplay
  | ThreadExit nat
  | SetInputs main_window

fun perform :: "action \<Rightarrow> main_window \<Rightarrow> main_window" where
  "perform StartSource mw = snd (start_source mw)"
| "perform StopSource mw = snd (stop_source mw)"
| "perform RunShelfSetup mw = snd (run_shelf_setup mw)"
| "perform StartShelfService mw = snd (start_shelf_service mw)"
| "perform StopShelfService mw = snd (stop_shelf_service mw)"
| "perform (StartCamDisplay r) mw = snd (start_cam_display r mw)"
| "perform StopCamDisplay mw = snd (stop_cam_display mw)"
| "perform (ThreadExit i) mw = thread_exit i mw"
| "perform (SetInputs ui) mw = set_inputs ui mw"

text \<open>The window after \<^verbatim>\<open>__init__\<close>: no worker yet.\<close>

definition initial_window :: "main_window \<Rightarrow> main_window" where
  "initial_window ui =
     ui\<lparr>active_worker := None, shelf_worker := None, display_worker := None, threads := []\<rparr>"

definition window_after :: "main_window \<Rightarrow> action list \<Rightarrow> main_window" where
  "window_after ui acts = foldl (\<lambda>mw a. perform a mw) (initial_window ui) acts"

text \<open>The workers of a slot whose thread is running.\<close>

definition running_in :: "main_window \<Rightarrow> slot \<Rightarrow> nat list" where
  "running_in mw s =
     filter (\<lambda>i. isRunning (threads mw ! i) \<and> slot_of (worker (threads mw ! i)) = s)
       [0 ..< length (threads mw)]"

text \<open>
  Every running thread is the one its slot's holder refers to: the invariant behind
  the three guards.
\<close>

definition slots_consistent :: "main_window \<Rightarrow> bool" where
  "slots_consistent mw =
     (\<forall>i < length (threads mw).
        isRunning (threads mw ! i) \<longrightarrow>
        holder_of mw (slot_of (worker (threads mw ! i))) = Some i)"

section \<open>Observations on a run\<close>

text \<open>The calls that change the file system, and the events that change nothing.\<close>

fun touches_filesystem :: "event \<Rightarrow> bool" where
  "touches_filesystem (Rmtree d) = True"
| "touches_filesystem (Makedirs d) = True"
| "touches_filesystem ev = False"

fun passive_event :: "event \<Rightarrow> bool" where
  "passive_event (Log l) = True"
| "passive_event (RunningChanged b) = True"
| "passive_event Finished = True"
| "passive_event Sleep = True"
| "passive_event ev = False"

text \<open>The calls on the capture services, in program order.\<close>

fun is_service_call :: "event \<Rightarrow> bool" where
  "is_service_call (Construct s c f) = True"
| "is_service_call (SvcStart c) = True"
| "is_service_call (SvcStop c) = True"
| "is_service_call (ThreadJoin c) = True"
| "is_service_call ev = False"

definition service_calls :: "event list \<Rightarrow> event list" where
  "service_calls evs = filter is_service_call evs"

fun is_join :: "event \<Rightarrow> bool" where
  "is_join (ThreadJoin c) = True"
| "is_join ev = False"

text \<open>Some log line of the run contains the given text.\<close>

fun logs_text :: "string \<Rightarrow> event list \<Rightarrow> bool" where
  "logs_text t [] = False"
| "logs_text t (Log l # evs) = (str_contains l t \<or> logs_text t evs)"
| "logs_text t (ev # evs) = logs_text t evs"

text \<open>
  A read that gives a line of text (not end of file, not an exception), the line it
  gives, and the exception of the read at the head of a list, if it raises.
\<close>

definition read_is_line :: "read \<Rightarrow> bool" where
  "read_is_line r = (case read_result r of Inl e \<Rightarrow> False | Inr line \<Rightarrow> line \<noteq> [])"

definition read_line :: "read \<Rightarrow> string" where
  "read_line r = (case read_result r of Inl e \<Rightarrow> [] | Inr line \<Rightarrow> line)"

definition first_read_fault :: "read list \<Rightarrow> exn option" where
  "first_read_fault rs =
     (case rs of
        [] \<Rightarrow> None
      | r # rest \<Rightarrow> (case read_result r of Inl e \<Rightarrow> Some e | Inr line \<Rightarrow> None))"

definition forwarded_line :: "read \<Rightarrow> event" where
  "forwarded_line r = Log (str_rstrip (read_line r))"

text \<open>The reads the scan tool's loop passes: lines, and in service mode only until a stop.\<close>

definition scan_passes :: "shelf_scan_worker \<Rightarrow> read \<Rightarrow> bool" where
  "scan_passes w r =
     (read_is_line r
      \<and> (mode w = ''service'' \<longrightarrow> \<not> stop_flag w \<and> stop_during r = None))"

definition construct_call :: "string \<Rightarrow> int \<Rightarrow> event" where
  "construct_call root c = Construct (str_zfill 3 (str_int c)) c (latest_frame_file root c)"

section \<open>Sample inputs\<close>

definition sample_service :: service where
  "sample_service =
     \<lparr>camera_id = ''camera'', start_raises = None,
      stop_raises = Some (Exn ''busy'' ''Traceback: busy''), thread = Some None\<rparr>"

definition threadless_service :: service where
  "threadless_service =
     \<lparr>camera_id = ''camera'', start_raises = None, stop_raises = None, thread = None\<rparr>"

definition sample_camera_env :: "service \<Rightarrow> camera_env" where
  "sample_camera_env svc =
     \<lparr>makedirs_raises = (\<lambda>d. None),
      new_service = (\<lambda>s c f. Inr (svc\<lparr>camera_id := ''camera_'' @ s\<rparr>)),
      stop_event_is_set = (\<lambda>k. 1 \<le> k)\<rparr>"

definition sample_stop :: stop_outcomes where
  "sample_stop =
     \<lparr>still_running = True, send_signal_raises = None, grace_wait_raises = None,
      terminate_raises = None, wait_raises = None, kill_raises = None\<rparr>"

definition line_read :: "string \<Rightarrow> stop_outcomes option \<Rightarrow> read" where
  "line_read text stop = \<lparr>read_result = Inr (text @ [CHR 0x0A]), stop_during = stop\<rparr>"

definition sample_process :: process where
  "sample_process =
     \<lparr>pid = 41,
      stdout_reads = [line_read ''one'' None, line_read ''two'' (Some sample_stop),
                      line_read ''three'' None],
      returncode = 0\<rparr>"

definition sample_decode_error :: exn where
  "sample_decode_error =
     Exn ''invalid start byte'' ''Traceback (most recent call last): UnicodeDecodeError''"

definition undecodable_process :: process where
  "undecodable_process =
     \<lparr>pid = 41,
      stdout_reads = [line_read ''one'' None,
                      \<lparr>read_result = Inl sample_decode_error, stop_during = Some sample_stop\<rparr>,
                      line_read ''three'' None],
      returncode = 0\<rparr>"

definition sample_tool_env :: "bool \<Rightarrow> exn + process \<Rightarrow> tool_env" where
  "sample_tool_env present spawned =
     \<lparr>os_path_isfile = (\<lambda>f. present), os_name = ''posix'',
      subprocess_Popen = (\<lambda>cmd cwd. spawned)\<rparr>"

definition sample_scan_worker :: "string \<Rightarrow> shelf_scan_worker" where
  "sample_scan_worker m =
     \<lparr>project_root = ''/p'', mode = m, python_exe = ''py'', stop_flag = False,
      child = None, shelf_scan_path = ''/p/product_scan/shelf_scan.py''\<rparr>"

definition sample_display_worker :: cam_display_worker where
  "sample_display_worker =
     \<lparr>display_project_root = ''/p'', root_dir = ''/v'', title = ''T'',
      display_python_exe = ''py'', display_child = None\<rparr>"

definition sample_window :: main_window where
  "sample_window =
     \<lparr>path_edit_text = ''/x'', source_data = ''cameras'', item_data = ALL_CAM,
      display_title_text = ''View'', detected_cameras = [0, 1], detected_images = [],
      image_name_to_path = (\<lambda>n. None), project_root_dir = ''/p'',
      sys_executable = ''py'', active_worker = None, shelf_worker = None,
      display_worker = None, threads = []\<rparr>"

definition sample_fault :: exn where
  "sample_fault = Exn ''boom'' ''Traceback (most recent call last): RuntimeError: boom''"

definition failing_camera_env :: camera_env where
  "failing_camera_env =
     \<lparr>makedirs_raises = (\<lambda>d. None),
      new_service = (\<lambda>s c f. Inl sample_fault),
      stop_event_is_set = (\<lambda>k. 1 \<le> k)\<rparr>"

definition sample_filesystem :: filesystem where
  "sample_filesystem =
     \<lparr>os_path_isdir = (\<lambda>d. d = ''devices''),
      os_listdir = (\<lambda>d. Inr [''b.JPG'', ''notes.txt'', ''a.jpg''])\<rparr>"

section \<open>The polling loop returns once the flag is seen\<close>

lemma wait_for_stop_returns:
  "is_set (i + d) \<Longrightarrow> \<exists>n. wait_for_stop is_set i = Some n"
proof (induction d arbitrary: i)
  case 0
  then show ?case by (simp add: wait_for_stop.simps)
next
  case (Suc d)
  then have "is_set (Suc i + d)" by simp
  from Suc.IH [OF this] obtain n where "wait_for_stop is_set (Suc i) = Some n" by blast
  then show ?case by (subst wait_for_stop.simps) simp
qed

lemma wait_for_stop_0: "is_set k \<Longrightarrow> \<exists>n. wait_for_stop is_set 0 = Some n"
  using wait_for_stop_returns [of is_set 0 k] by simp

section \<open>The scan tool against a missing tool path\<close>

text \<open>
  Claim C7. When the shelf-scan script file does not exist, the run of the scan-tool
  worker is exactly one log line that reports the path as not found, followed by the
  finished signal: no \<open>Popen\<close> call, no mode signal, no exit-code line.
\<close>

theorem missing_scan_tool_not_spawned:
  assumes "\<not> os_path_isfile env (shelf_scan_path w)"
  shows "ShelfScanWorker_run env w =
           Some ([Log (''Not found: '' @ shelf_scan_path w), Finished], None)"
  using assms by (simp add: ShelfScanWorker_run_def shelf_scan_body_def try_except_finally_def)

theorem missing_scan_tool_not_spawned_witness:
  "\<not> os_path_isfile (sample_tool_env False (Inr sample_process))
        (shelf_scan_path (sample_scan_worker ''setup''))
   \<and> ShelfScanWorker_run (sample_tool_env False (Inr sample_process))
         (sample_scan_worker ''setup'') =
       Some ([Log ''Not found: /p/product_scan/shelf_scan.py'', Finished], None)"
proof -
  have h: "\<not> os_path_isfile (sample_tool_env False (Inr sample_process))
        (shelf_scan_path (sample_scan_worker ''setup''))"
    by (simp add: sample_tool_env_def)
  show ?thesis
    using h missing_scan_tool_not_spawned [OF h] by (simp add: sample_scan_worker_def)
qed

section \<open>The capture supervisor with an empty selection\<close>

text \<open>
  Claim C3, as stated: with an empty camera selection the run finishes without any
  side effect, in particular without clearing or recreating the device directory.
  The run below has an empty selection and removes and recreates \<^verbatim>\<open>/x/devices\<close>: the
  directory is prepared before the selection is looked at.
\<close>

theorem empty_selection_counterexample:
  "CameraServerWorker_run (sample_camera_env sample_service)
     (CameraServerWorker_init ''/x'' []) =
     Some ([Log ''Background Camera Server System'', RunningChanged True,
            Log ''Preparing directory: /x/devices'', Rmtree ''/x/devices'',
            Makedirs ''/x/devices'', Log ''Searching For Valid Cameras...'',
            Log ''No cameras selected.'', RunningChanged False, Finished], None)
   \<and> list_ex touches_filesystem
       (fst (the (CameraServerWorker_run (sample_camera_env sample_service)
                    (CameraServerWorker_init ''/x'' []))))"
  by code_simp

text \<open>
  Claim C3, amended. With an empty camera selection the run clears and recreates the
  device directory, then logs that no camera is selected and finishes (or, when
  recreating the directory raises, reports the fatal error and finishes). It
  constructs, starts, stops and joins no capture service and never polls the stop
  flag.
\<close>

theorem empty_selection_clears_directory:
  assumes "camera_indices w = []"
  shows "CameraServerWorker_run env w =
           Some ([Log ''Background Camera Server System'', RunningChanged True,
                  Log (''Preparing directory: '' @ root_devices_dir w),
                  Rmtree (root_devices_dir w), Makedirs (root_devices_dir w)]
                 @ (case makedirs_raises env (root_devices_dir w) of
                      None \<Rightarrow> [Log ''Searching For Valid Cameras...'',
                               Log ''No cameras selected.'']
                    | Some e \<Rightarrow> [Log (''FATAL ERROR:'' @ [CHR 0x0A] @ exn_traceback e),
                                 MessageBoxCritical ''Camera Server Error'' (exn_str e)])
                 @ [RunningChanged False, Finished], None)"
  using assms
  by (cases "makedirs_raises env (root_devices_dir w)")
     (simp_all add: CameraServerWorker_run_def camera_server_body_def try_except_finally_def
        Let_def)

theorem empty_selection_clears_directory_witness:
  "camera_indices (CameraServerWorker_init ''/x'' []) = []
   \<and> CameraServerWorker_run (sample_camera_env sample_service)
       (CameraServerWorker_init ''/x'' []) =
     Some ([Log ''Background Camera Server System'', RunningChanged True,
            Log ''Preparing directory: /x/devices'', Rmtree ''/x/devices'',
            Makedirs ''/x/devices'', Log ''Searching For Valid Cameras...'',
            Log ''No cameras selected.'', RunningChanged False, Finished], None)"
proof -
  have h: "camera_indices (CameraServerWorker_init ''/x'' []) = []"
    by (simp add: CameraServerWorker_init_def)
  have r: "root_devices_dir (CameraServerWorker_init ''/x'' []) = ''/x/devices''"
    by code_simp
  show ?thesis
    using h empty_selection_clears_directory [OF h, of "sample_camera_env sample_service"]
    by (simp add: r sample_camera_env_def)
qed

section \<open>The passive source worker leaves the file system alone\<close>

lemma passive_not_fs: "passive_event ev \<Longrightarrow> \<not> touches_filesystem ev"
  by (cases ev) simp_all

lemma passive_list_not_fs: "list_all passive_event evs \<Longrightarrow> \<not> list_ex touches_filesystem evs"
  by (induction evs) (auto dest: passive_not_fs)

lemma image_source_announce_passive: "list_all passive_event (image_source_announce w)"
  by (simp add: image_source_announce_def list_all_iff)

text \<open>
  Claim C5. For every image selection, empty or not, the run of the passive source
  worker makes no call that changes the file system: what it emits before polling
  \<open>image_source_announce\<close> is signals and log lines only, and once a poll sees the
  stop flag the run returns, having emitted that announcement, one sleep per poll
  that saw the flag clear, the closing log line and the two closing signals. Every
  event is a log line, a sleep between polls, or a lifecycle signal.
\<close>

theorem passive_source_never_writes:
  assumes "is_set k"
  shows "list_all passive_event (image_source_announce w)
         \<and> (\<exists>n. ImageSourceWorker_run is_set w =
                  Some (image_source_announce w @ replicate n Sleep
                        @ [Log ''Image source stopped.'', RunningChanged False, Finished], None))
         \<and> (\<exists>evs. ImageSourceWorker_run is_set w = Some (evs, None)
                \<and> list_all passive_event evs \<and> \<not> list_ex touches_filesystem evs)"
proof -
  from assms wait_for_stop_0 [of is_set k] obtain n where n: "wait_for_stop is_set 0 = Some n" by blast
  let ?evs = "image_source_announce w @ replicate n Sleep
                @ [Log ''Image source stopped.'', RunningChanged False, Finished]"
  have run: "ImageSourceWorker_run is_set w = Some (?evs, None)"
    by (simp add: ImageSourceWorker_run_def image_source_body_def n try_except_finally_def)
  have p: "list_all passive_event ?evs"
    using image_source_announce_passive [of w] by (auto simp: list_all_iff)
  from run p passive_list_not_fs [OF p] image_source_announce_passive [of w]
  show ?thesis by blast
qed

theorem passive_source_never_writes_witness:
  "(\<lambda>k. (1::nat) \<le> k) 1
   \<and> ImageSourceWorker_run (\<lambda>k. 1 \<le> k)
        \<lparr>devices_dir = ''/x/devices'', selected_images = [''/x/devices/a.jpg'']\<rparr> =
       Some ([RunningChanged True, Log ''Image Source Mode (no camera capture)'',
              Log ''Devices folder: /x/devices'', Log ''Using 1 image(s):'',
              Log '' - a.jpg'', Sleep, Log ''Image source stopped.'',
              RunningChanged False, Finished], None)"
proof -
  have h: "(\<lambda>k. (1::nat) \<le> k) 1" by simp
  have "ImageSourceWorker_run (\<lambda>k. 1 \<le> k)
        \<lparr>devices_dir = ''/x/devices'', selected_images = [''/x/devices/a.jpg'']\<rparr> =
       Some ([RunningChanged True, Log ''Image Source Mode (no camera capture)'',
              Log ''Devices folder: /x/devices'', Log ''Using 1 image(s):'',
              Log '' - a.jpg'', Sleep, Log ''Image source stopped.'',
              RunningChanged False, Finished], None)"
    by code_simp
  then show ?thesis
    using h passive_source_never_writes [of "\<lambda>k. 1 \<le> k" 1, OF h] by simp
qed

section \<open>The reader loops of the tool workers\<close>

lemma scan_passes_after_stop:
  "mode w \<noteq> ''service'' \<Longrightarrow> scan_passes (snd (ShelfScanWorker_stop os so w)) = scan_passes w"
  by (rule ext) (simp add: scan_passes_def ShelfScanWorker_stop_def)

lemma shelf_reader_loop_forwards:
  "shelf_reader_loop os w rs =
     (map forwarded_line (takeWhile (scan_passes w) rs),
      first_read_fault (dropWhile (scan_passes w) rs))"
proof (induction rs arbitrary: w)
  case Nil
  then show ?case by (simp add: first_read_fault_def)
next
  case (Cons r rest)
  show ?case
  proof (cases "read_result r")
    case (Inl e)
    then show ?thesis
      by (simp add: scan_passes_def read_is_line_def first_read_fault_def)
  next
    case (Inr line)
    show ?thesis
    proof (cases "stop_during r")
      case None
      with Inr Cons.IH [of w] show ?thesis
        by (simp add: scan_passes_def read_is_line_def read_line_def first_read_fault_def
              forwarded_line_def)
    next
      case (Some so)
      show ?thesis
      proof (cases "mode w = ''service''")
        case True
        with Inr Some show ?thesis
          by (simp add: scan_passes_def read_is_line_def first_read_fault_def
                ShelfScanWorker_stop_def Let_def)
      next
        case False
        with Inr Some Cons.IH [of "snd (ShelfScanWorker_stop os so w)"]
          scan_passes_after_stop [OF False, of os so]
        show ?thesis
          by (simp add: scan_passes_def read_is_line_def read_line_def first_read_fault_def
                forwarded_line_def ShelfScanWorker_stop_def)
      qed
    qed
  qed
qed

lemma display_reader_loop_forwards:
  "display_reader_loop rs =
     (map forwarded_line (takeWhile read_is_line rs),
      first_read_fault (dropWhile read_is_line rs))"
proof (induction rs)
  case Nil
  then show ?case by (simp add: first_read_fault_def)
next
  case (Cons r rest)
  then show ?case
    by (cases "read_result r")
       (simp_all add: read_is_line_def read_line_def first_read_fault_def forwarded_line_def)
qed

lemma forwarded_lines_no_finished: "count_list (map forwarded_line rs) Finished = 0"
  by (induction rs) (simp_all add: forwarded_line_def)

lemma forwarded_lines_no_wait: "ProcessWait \<notin> set (map forwarded_line rs)"
  by (induction rs) (simp_all add: forwarded_line_def)

lemma takeWhile_length_le:
  "i < length xs \<Longrightarrow> \<not> P (xs ! i) \<Longrightarrow> length (takeWhile P xs) \<le> i"
proof (induction xs arbitrary: i)
  case Nil then show ?case by simp
next
  case (Cons x xs)
  then show ?case by (cases i) auto
qed

lemma first_read_fault_in_reads:
  assumes "first_read_fault (dropWhile P rs) = Some e"
  shows "\<exists>r \<in> set rs. read_result r = Inl e"
proof (cases "dropWhile P rs")
  case Nil
  with assms show ?thesis by (simp add: first_read_fault_def)
next
  case (Cons r rest)
  then have "r \<in> set (dropWhile P rs)" by simp
  then have "r \<in> set rs" by (rule set_dropWhileD)
  moreover from assms Cons have "read_result r = Inl e"
    by (simp add: first_read_fault_def split: sum.splits)
  ultimately show ?thesis by blast
qed

lemma no_fault_without_raising_read:
  "\<forall>r \<in> set rs. \<not> isl (read_result r) \<Longrightarrow> first_read_fault (dropWhile P rs) = None"
proof (cases "first_read_fault (dropWhile P rs)")
  case None
  then show ?thesis by simp
next
  case (Some e)
  assume a: "\<forall>r \<in> set rs. \<not> isl (read_result r)"
  from first_read_fault_in_reads [OF Some] obtain r where "r \<in> set rs" "read_result r = Inl e"
    by blast
  with a show ?thesis by auto
qed

lemma shelf_run_spawned:
  assumes "os_path_isfile env (shelf_scan_path w)"
    and "subprocess_Popen env (shelf_scan_cmd w) (project_root w) = Inr p"
  shows "ShelfScanWorker_run env w =
           Some (shelf_scan_spawn env w
                 @ [Log (''shelf_scan.py ('' @ mode w @ '') started (pid='' @ str_int (pid p) @ '')'')]
                 @ map forwarded_line (takeWhile (scan_passes w) (stdout_reads p))
                 @ (case first_read_fault (dropWhile (scan_passes w) (stdout_reads p)) of
                      None \<Rightarrow>
                        [ProcessWait,
                         Log (''shelf_scan.py ('' @ mode w @ '') exited with code ''
                              @ str_int (returncode p))]
                    | Some e \<Rightarrow>
                        [Log (''Error running shelf_scan.py ('' @ mode w @ ''): '' @ exn_str e)])
                 @ [Finished], None)"
proof -
  have same: "scan_passes (w\<lparr>child := Some p\<rparr>) = scan_passes w"
    by (rule ext) (simp add: scan_passes_def)
  from assms show ?thesis
    by (simp add: ShelfScanWorker_run_def shelf_scan_body_def try_except_finally_def
          shelf_reader_loop_forwards same split: option.splits)
qed

lemma display_run_spawned:
  assumes "os_path_isfile env (display_path_of w)"
    and "subprocess_Popen env (cam_display_cmd w) (display_project_root w) = Inr p"
  shows "CamDisplayWorker_run env w =
           Some (cam_display_spawn env w
                 @ [Log (''cam_display started (pid='' @ str_int (pid p) @ '')'')]
                 @ map forwarded_line (takeWhile read_is_line (stdout_reads p))
                 @ (case first_read_fault (dropWhile read_is_line (stdout_reads p)) of
                      None \<Rightarrow>
                        [ProcessWait,
                         Log (''cam_display exited with code '' @ str_int (returncode p))]
                    | Some e \<Rightarrow> [Log (''Error running cam_display: '' @ exn_str e)])
                 @ [Finished], None)"
  using assms
  by (simp add: CamDisplayWorker_run_def cam_display_body_def try_except_finally_def
        display_reader_loop_forwards split: option.splits)

text \<open>
  Either \<^verbatim>\<open>stop()\<close> leaves a child that has exited alone: it polls it and makes no other
  call, and it makes no call at all before the child is spawned.
\<close>

lemma stop_polls_only:
  "\<not> still_running so \<Longrightarrow>
   fst (ShelfScanWorker_stop os so w) = (if child w = None then [] else [Poll])
   \<and> CamDisplayWorker_stop os so d = (if display_child d = None then [] else [Poll])"
  by (simp add: ShelfScanWorker_stop_def CamDisplayWorker_stop_def split: option.splits)

lemma stop_first_calls:
  "\<exists>calls. terminate_child n os so =
             (if os = ''nt'' then SendCtrlBreak else Terminate) # calls"
  by (simp add: terminate_child_def soft_stop_def split: option.splits)

text \<open>
  Claim C8, as stated: in service mode the worker still waits for the child and emits
  the exit-code line after a stop, and in setup mode the lines are forwarded up to
  end of file. In the service-mode run below \<^verbatim>\<open>stop()\<close> is called during the second
  read, and that read raises (the output of a child that is stopped in the middle of a
  character cannot be decoded): the run goes from the reader loop to the handler, so
  it neither waits for the child nor logs an exit code. In the setup-mode run on the
  same child the third line, which comes before end of file, is never forwarded.
\<close>

theorem stop_then_read_fault_counterexample:
  "mode (sample_scan_worker ''service'') = ''service''
   \<and> stop_during (stdout_reads undecodable_process ! 1) = Some sample_stop
   \<and> read_result (stdout_reads undecodable_process ! 1) = Inl sample_decode_error
   \<and> ShelfScanWorker_run (sample_tool_env True (Inr undecodable_process))
        (sample_scan_worker ''service'') =
      Some ([Log ''Executing with interpreter: py'',
             Log ''Command: py -u /p/product_scan/shelf_scan.py service'',
             ModeChanged ''service'',
             Popen [''py'', ''-u'', ''/p/product_scan/shelf_scan.py'', ''service''] ''/p'' 0,
             Log ''shelf_scan.py (service) started (pid=41)'', Log ''one'',
             Log ''Error running shelf_scan.py (service): invalid start byte'',
             Finished], None)
   \<and> ProcessWait \<notin> set (fst (the (ShelfScanWorker_run
                                      (sample_tool_env True (Inr undecodable_process))
                                      (sample_scan_worker ''service''))))
   \<and> \<not> logs_text ''exited with code''
         (fst (the (ShelfScanWorker_run (sample_tool_env True (Inr undecodable_process))
                      (sample_scan_worker ''service''))))
   \<and> ShelfScanWorker_run (sample_tool_env True (Inr undecodable_process))
        (sample_scan_worker ''setup'') =
      Some ([Log ''Executing with interpreter: py'',
             Log ''Command: py -u /p/product_scan/shelf_scan.py setup'',
             ModeChanged ''setup'',
             Popen [''py'', ''-u'', ''/p/product_scan/shelf_scan.py'', ''setup''] ''/p'' 0,
             Log ''shelf_scan.py (setup) started (pid=41)'', Log ''one'',
             Log ''Error running shelf_scan.py (setup): invalid start byte'',
             Finished], None)
   \<and> read_result (stdout_reads undecodable_process ! 2) = Inr (''three'' @ [CHR 0x0A])"
  by code_simp

text \<open>
  Claim C8, amended. \<^verbatim>\<open>stop()\<close> sets the flag, keeps the mode and, when it finds the
  child alive, first sends it the console break (on Windows) or terminates it
  (elsewhere). In service mode the reader loop of a worker on which \<^verbatim>\<open>stop()\<close> has
  been called forwards nothing, and when a \<^verbatim>\<open>stop()\<close> comes during the read at position
  \<open>i\<close> at most the \<open>i\<close> lines read before it are forwarded. In setup mode the loop
  forwards the lines up to end of file or up to the first read that raises, also on a
  worker on which \<^verbatim>\<open>stop()\<close> has been called. A run that spawns its child announces
  it, forwards those lines and then, when the read that ended the loop raised, logs
  the error, and otherwise waits for the child and logs its exit code; it ends with
  the finished signal. In particular, when no read raises, the run ends with the
  wait, the exit-code line and the finished signal.
\<close>

theorem service_stop_ends_forwarding:
  assumes "os_path_isfile env (shelf_scan_path w)"
    and "subprocess_Popen env (shelf_scan_cmd w) (project_root w) = Inr p"
  shows "stop_flag (snd (ShelfScanWorker_stop os so v))
       \<and> mode (snd (ShelfScanWorker_stop os so v)) = mode v
       \<and> (child v \<noteq> None \<and> still_running so \<longrightarrow>
            (\<exists>calls. fst (ShelfScanWorker_stop os so v) =
                        Poll # (if os = ''nt'' then SendCtrlBreak else Terminate) # calls))
       \<and> (mode v = ''service'' \<longrightarrow>
            fst (shelf_reader_loop os (snd (ShelfScanWorker_stop os so v)) rs) = []
          \<and> (\<forall>i < length rs. stop_during (rs ! i) \<noteq> None \<longrightarrow>
                length (fst (shelf_reader_loop os v rs)) \<le> i))
       \<and> (mode v = ''setup'' \<longrightarrow>
            fst (shelf_reader_loop os v rs) = map forwarded_line (takeWhile read_is_line rs)
          \<and> fst (shelf_reader_loop os (snd (ShelfScanWorker_stop os so v)) rs) =
              map forwarded_line (takeWhile read_is_line rs))
       \<and> shelf_reader_loop os v rs =
           (map forwarded_line (takeWhile (scan_passes v) rs),
            first_read_fault (dropWhile (scan_passes v) rs))
       \<and> ShelfScanWorker_run env w =
           Some (shelf_scan_spawn env w
                 @ [Log (''shelf_scan.py ('' @ mode w @ '') started (pid=''
                         @ str_int (pid p) @ '')'')]
                 @ map forwarded_line (takeWhile (scan_passes w) (stdout_reads p))
                 @ (case first_read_fault (dropWhile (scan_passes w) (stdout_reads p)) of
                      None \<Rightarrow>
                        [ProcessWait,
                         Log (''shelf_scan.py ('' @ mode w @ '') exited with code ''
                              @ str_int (returncode p))]
                    | Some e \<Rightarrow>
                        [Log (''Error running shelf_scan.py ('' @ mode w @ ''): ''
                              @ exn_str e)])
                 @ [Finished], None)
       \<and> ((\<forall>r \<in> set (stdout_reads p). \<not> isl (read_result r)) \<longrightarrow>
            (\<exists>mid. ShelfScanWorker_run env w =
                     Some (mid @ [ProcessWait,
                                  Log (''shelf_scan.py ('' @ mode w @ '') exited with code ''
                                       @ str_int (returncode p)),
                                  Finished], None)))"
proof (intro conjI impI allI)
  let ?stopped = "snd (ShelfScanWorker_stop os so v)"
  show "stop_flag ?stopped" by (simp add: ShelfScanWorker_stop_def)
  show "mode ?stopped = mode v" by (simp add: ShelfScanWorker_stop_def)
  show "\<exists>calls. fst (ShelfScanWorker_stop os so v) =
                  Poll # (if os = ''nt'' then SendCtrlBreak else Terminate) # calls"
    if "child v \<noteq> None \<and> still_running so"
  proof -
    from that obtain q where q: "child v = Some q" by auto
    from stop_first_calls [of 3 os so] obtain calls where
      "terminate_child 3 os so = (if os = ''nt'' then SendCtrlBreak else Terminate) # calls"
      by blast
    with q that show ?thesis by (simp add: ShelfScanWorker_stop_def)
  qed
  show "fst (shelf_reader_loop os ?stopped rs) = []" if "mode v = ''service''"
  proof -
    have "\<not> scan_passes ?stopped r" for r
      using that by (simp add: scan_passes_def ShelfScanWorker_stop_def)
    then have "takeWhile (scan_passes ?stopped) rs = []"
      by (cases rs) simp_all
    then show ?thesis by (simp add: shelf_reader_loop_forwards)
  qed
  show "length (fst (shelf_reader_loop os v rs)) \<le> i"
    if "mode v = ''service''" "i < length rs" "stop_during (rs ! i) \<noteq> None" for i
  proof -
    from that have "\<not> scan_passes v (rs ! i)" by (simp add: scan_passes_def)
    with that(2) takeWhile_length_le [of i rs "scan_passes v"] show ?thesis
      by (simp add: shelf_reader_loop_forwards)
  qed
  have in_setup: "scan_passes u = read_is_line" if "mode u = ''setup''" for u
    using that by (intro ext) (simp add: scan_passes_def)
  show "fst (shelf_reader_loop os v rs) = map forwarded_line (takeWhile read_is_line rs)"
    if "mode v = ''setup''"
    using in_setup [OF that] by (simp add: shelf_reader_loop_forwards)
  show "fst (shelf_reader_loop os ?stopped rs) = map forwarded_line (takeWhile read_is_line rs)"
    if "mode v = ''setup''"
  proof -
    from that have "mode ?stopped = ''setup''" by (simp add: ShelfScanWorker_stop_def)
    from in_setup [OF this] show ?thesis by (simp add: shelf_reader_loop_forwards)
  qed
  show "shelf_reader_loop os v rs =
           (map forwarded_line (takeWhile (scan_passes v) rs),
            first_read_fault (dropWhile (scan_passes v) rs))"
    by (rule shelf_reader_loop_forwards)
  show "ShelfScanWorker_run env w =
           Some (shelf_scan_spawn env w
                 @ [Log (''shelf_scan.py ('' @ mode w @ '') started (pid=''
                         @ str_int (pid p) @ '')'')]
                 @ map forwarded_line (takeWhile (scan_passes w) (stdout_reads p))
                 @ (case first_read_fault (dropWhile (scan_passes w) (stdout_reads p)) of
                      None \<Rightarrow>
                        [ProcessWait,
                         Log (''shelf_scan.py ('' @ mode w @ '') exited with code ''
                              @ str_int (returncode p))]
                    | Some e \<Rightarrow>
                        [Log (''Error running shelf_scan.py ('' @ mode w @ ''): ''
                              @ exn_str e)])
                 @ [Finished], None)"
    by (rule shelf_run_spawned [OF assms])
  show "\<exists>mid. ShelfScanWorker_run env w =
                 Some (mid @ [ProcessWait,
                              Log (''shelf_scan.py ('' @ mode w @ '') exited with code ''
                                   @ str_int (returncode p)),
                              Finished], None)"
    if "\<forall>r \<in> set (stdout_reads p). \<not> isl (read_result r)"
  proof -
    from no_fault_without_raising_read [OF that]
    have "first_read_fault (dropWhile (scan_passes w) (stdout_reads p)) = None" .
    with shelf_run_spawned [OF assms] show ?thesis by simp
  qed
qed

theorem service_stop_ends_forwarding_witness:
  "os_path_isfile (sample_tool_env True (Inr sample_process))
     (shelf_scan_path (sample_scan_worker ''service''))
   \<and> subprocess_Popen (sample_tool_env True (Inr sample_process))
        (shelf_scan_cmd (sample_scan_worker ''service''))
        (project_root (sample_scan_worker ''service'')) = Inr sample_process
   \<and> stop_during (stdout_reads sample_process ! 1) = Some sample_stop
   \<and> ShelfScanWorker_stop ''posix'' sample_stop
        ((sample_scan_worker ''service'')\<lparr>child := Some sample_process\<rparr>) =
      ([Poll, Terminate, WaitTimeout 3],
       (sample_scan_worker ''service'')\<lparr>child := Some sample_process, stop_flag := True\<rparr>)
   \<and> length (fst (shelf_reader_loop ''posix''
                     ((sample_scan_worker ''service'')\<lparr>child := Some sample_process\<rparr>)
                     (stdout_reads sample_process))) \<le> 1
   \<and> ShelfScanWorker_run (sample_tool_env True (Inr sample_process))
        (sample_scan_worker ''service'') =
      Some ([Log ''Executing with interpreter: py'',
             Log ''Command: py -u /p/product_scan/shelf_scan.py service'',
             ModeChanged ''service'',
             Popen [''py'', ''-u'', ''/p/product_scan/shelf_scan.py'', ''service''] ''/p'' 0,
             Log ''shelf_scan.py (service) started (pid=41)'', Log ''one'',
             ProcessWait, Log ''shelf_scan.py (service) exited with code 0'',
             Finished], None)
   \<and> fst (shelf_reader_loop ''posix''
            ((sample_scan_worker ''setup'')\<lparr>child := Some sample_process\<rparr>)
            (stdout_reads sample_process)) =
      [Log ''one'', Log ''two'', Log ''three'']"
proof -
  let ?env = "sample_tool_env True (Inr sample_process)"
  let ?w = "sample_scan_worker ''service''"
  let ?v = "?w\<lparr>child := Some sample_process\<rparr>"
  let ?u = "(sample_scan_worker ''setup'')\<lparr>child := Some sample_process\<rparr>"
  let ?rs = "stdout_reads sample_process"
  have a: "os_path_isfile ?env (shelf_scan_path ?w)" by (simp add: sample_tool_env_def)
  have b: "subprocess_Popen ?env (shelf_scan_cmd ?w) (project_root ?w) = Inr sample_process"
    by (simp add: sample_tool_env_def)
  have m: "mode ?v = ''service''" "mode ?u = ''setup''" by (simp_all add: sample_scan_worker_def)
  have i: "1 < length ?rs" "stop_during (?rs ! 1) = Some sample_stop"
    by (simp_all add: sample_process_def line_read_def)
  have lines: "map forwarded_line (takeWhile read_is_line ?rs) =
                 [Log ''one'', Log ''two'', Log ''three'']"
    by code_simp
  have stop: "ShelfScanWorker_stop ''posix'' sample_stop ?v =
                ([Poll, Terminate, WaitTimeout 3],
                 ?w\<lparr>child := Some sample_process, stop_flag := True\<rparr>)"
    by code_simp
  have run: "ShelfScanWorker_run ?env ?w =
      Some ([Log ''Executing with interpreter: py'',
             Log ''Command: py -u /p/product_scan/shelf_scan.py service'',
             ModeChanged ''service'',
             Popen [''py'', ''-u'', ''/p/product_scan/shelf_scan.py'', ''service''] ''/p'' 0,
             Log ''shelf_scan.py (service) started (pid=41)'', Log ''one'',
             ProcessWait, Log ''shelf_scan.py (service) exited with code 0'',
             Finished], None)"
    by code_simp
  from service_stop_ends_forwarding [OF a b, of "''posix''" sample_stop ?v ?rs] m(1) i
  have bound: "length (fst (shelf_reader_loop ''posix'' ?v ?rs)) \<le> 1"
    by (metis option.distinct(1))
  from service_stop_ends_forwarding [OF a b, of "''posix''" sample_stop ?u ?rs] m(2)
  have "fst (shelf_reader_loop ''posix'' ?u ?rs) =
          map forwarded_line (takeWhile read_is_line ?rs)"
    by blast
  with lines have all: "fst (shelf_reader_loop ''posix'' ?u ?rs) =
                          [Log ''one'', Log ''two'', Log ''three'']"
    by simp
  from a b i(2) stop bound run all show ?thesis by blast
qed

section \<open>Announcement and exit code of the tool workers\<close>

text \<open>
  Claim C9, as stated: every run that reaches spawning reports the exit code of the
  child. In the run of the display-tool worker below the child is spawned, its first
  line is forwarded and the second read raises: the run goes to the handler, which
  logs the error; there is no wait for the child and no line with its exit code.
\<close>

theorem read_fault_no_exit_code_counterexample:
  "os_path_isfile (sample_tool_env True (Inr undecodable_process))
     (display_path_of sample_display_worker)
   \<and> CamDisplayWorker_run (sample_tool_env True (Inr undecodable_process))
        sample_display_worker =
      Some ([Log ''Executing cam display: py -u /p/cam_display/display_camera.py --root-dir /v --title T'',
             Popen [''py'', ''-u'', ''/p/cam_display/display_camera.py'', ''--root-dir'',
                    ''/v'', ''--title'', ''T''] ''/p'' 0,
             Log ''cam_display started (pid=41)'', Log ''one'',
             Log ''Error running cam_display: invalid start byte'',
             Finished], None)
   \<and> ProcessWait \<notin> set (fst (the (CamDisplayWorker_run
                                      (sample_tool_env True (Inr undecodable_process))
                                      sample_display_worker)))
   \<and> \<not> logs_text ''exited with code''
         (fst (the (CamDisplayWorker_run (sample_tool_env True (Inr undecodable_process))
                      sample_display_worker)))"
  by code_simp

text \<open>
  Claim C9, amended. Whenever the tool file exists, so that the run reaches \<^verbatim>\<open>Popen\<close>,
  the scan-tool worker has logged the interpreter and the full command line, and the
  display-tool worker the full command line (which starts with the interpreter),
  before the \<^verbatim>\<open>Popen\<close> call. When \<^verbatim>\<open>Popen\<close> raises, the run goes on with the error line
  and the finished signal only. When \<^verbatim>\<open>Popen\<close> returns a process, the run goes on with
  the line that gives its process id and the lines forwarded, and then: when the read
  that ended the reader loop did not raise (so in particular when no read raises),
  with the wait for the child, the log line carrying its exit code, and the finished
  signal; when that read raised, with the error line and the finished signal, without
  a wait and without a line for the exit code.
\<close>

theorem tool_workers_announce_and_report:
  assumes "os_path_isfile env (shelf_scan_path w)"
    and "os_path_isfile env' (display_path_of d)"
  shows "(\<exists>rest. ShelfScanWorker_run env w =
             Some ([Log (''Executing with interpreter: '' @ python_exe w),
                    Log (''Command: '' @ str_join '' '' (shelf_scan_cmd w)),
                    ModeChanged (mode w),
                    Popen (shelf_scan_cmd w) (project_root w) (creationflags_of env)]
                   @ rest, None)
           \<and> (\<forall>e. subprocess_Popen env (shelf_scan_cmd w) (project_root w) = Inl e \<longrightarrow>
                 rest = [Log (''Error running shelf_scan.py ('' @ mode w @ ''): ''
                              @ exn_str e), Finished])
           \<and> (\<forall>p. subprocess_Popen env (shelf_scan_cmd w) (project_root w) = Inr p \<longrightarrow>
                 (first_read_fault (dropWhile (scan_passes w) (stdout_reads p)) = None \<longrightarrow>
                    rest = Log (''shelf_scan.py ('' @ mode w @ '') started (pid=''
                                @ str_int (pid p) @ '')'')
                           # map forwarded_line (takeWhile (scan_passes w) (stdout_reads p))
                           @ [ProcessWait,
                              Log (''shelf_scan.py ('' @ mode w @ '') exited with code ''
                                   @ str_int (returncode p)),
                              Finished])
               \<and> (\<forall>e. first_read_fault (dropWhile (scan_passes w) (stdout_reads p)) = Some e \<longrightarrow>
                    rest = Log (''shelf_scan.py ('' @ mode w @ '') started (pid=''
                                @ str_int (pid p) @ '')'')
                           # map forwarded_line (takeWhile (scan_passes w) (stdout_reads p))
                           @ [Log (''Error running shelf_scan.py ('' @ mode w @ ''): ''
                                   @ exn_str e), Finished]
                    \<and> ProcessWait \<notin> set rest)
               \<and> ((\<forall>r \<in> set (stdout_reads p). \<not> isl (read_result r)) \<longrightarrow>
                    first_read_fault (dropWhile (scan_passes w) (stdout_reads p)) = None)))
       \<and> (\<exists>rest. CamDisplayWorker_run env' d =
             Some ([Log (''Executing cam display: '' @ str_join '' '' (cam_display_cmd d)),
                    Popen (cam_display_cmd d) (display_project_root d) (creationflags_of env')]
                   @ rest, None)
           \<and> (\<forall>e. subprocess_Popen env' (cam_display_cmd d) (display_project_root d) = Inl e \<longrightarrow>
                 rest = [Log (''Error running cam_display: '' @ exn_str e), Finished])
           \<and> (\<forall>p. subprocess_Popen env' (cam_display_cmd d) (display_project_root d) = Inr p \<longrightarrow>
                 (first_read_fault (dropWhile read_is_line (stdout_reads p)) = None \<longrightarrow>
                    rest = Log (''cam_display started (pid='' @ str_int (pid p) @ '')'')
                           # map forwarded_line (takeWhile read_is_line (stdout_reads p))
                           @ [ProcessWait,
                              Log (''cam_display exited with code '' @ str_int (returncode p)),
                              Finished])
               \<and> (\<forall>e. first_read_fault (dropWhile read_is_line (stdout_reads p)) = Some e \<longrightarrow>
                    rest = Log (''cam_display started (pid='' @ str_int (pid p) @ '')'')
                           # map forwarded_line (takeWhile read_is_line (stdout_reads p))
                           @ [Log (''Error running cam_display: '' @ exn_str e), Finished]
                    \<and> ProcessWait \<notin> set rest)
               \<and> ((\<forall>r \<in> set (stdout_reads p). \<not> isl (read_result r)) \<longrightarrow>
                    first_read_fault (dropWhile read_is_line (stdout_reads p)) = None)))"
proof (rule conjI)
  show "\<exists>rest. ShelfScanWorker_run env w =
             Some ([Log (''Executing with interpreter: '' @ python_exe w),
                    Log (''Command: '' @ str_join '' '' (shelf_scan_cmd w)),
                    ModeChanged (mode w),
                    Popen (shelf_scan_cmd w) (project_root w) (creationflags_of env)]
                   @ rest, None)
           \<and> (\<forall>e. subprocess_Popen env (shelf_scan_cmd w) (project_root w) = Inl e \<longrightarrow>
                 rest = [Log (''Error running shelf_scan.py ('' @ mode w @ ''): ''
                              @ exn_str e), Finished])
           \<and> (\<forall>p. subprocess_Popen env (shelf_scan_cmd w) (project_root w) = Inr p \<longrightarrow>
                 (first_read_fault (dropWhile (scan_passes w) (stdout_reads p)) = None \<longrightarrow>
                    rest = Log (''shelf_scan.py ('' @ mode w @ '') started (pid=''
                                @ str_int (pid p) @ '')'')
                           # map forwarded_line (takeWhile (scan_passes w) (stdout_reads p))
                           @ [ProcessWait,
                              Log (''shelf_scan.py ('' @ mode w @ '') exited with code ''
                                   @ str_int (returncode p)),
                              Finished])
               \<and> (\<forall>e. first_read_fault (dropWhile (scan_passes w) (stdout_reads p)) = Some e \<longrightarrow>
                    rest = Log (''shelf_scan.py ('' @ mode w @ '') started (pid=''
                                @ str_int (pid p) @ '')'')
                           # map forwarded_line (takeWhile (scan_passes w) (stdout_reads p))
                           @ [Log (''Error running shelf_scan.py ('' @ mode w @ ''): ''
                                   @ exn_str e), Finished]
                    \<and> ProcessWait \<notin> set rest)
               \<and> ((\<forall>r \<in> set (stdout_reads p). \<not> isl (read_result r)) \<longrightarrow>
                    first_read_fault (dropWhile (scan_passes w) (stdout_reads p)) = None))"
  proof (cases "subprocess_Popen env (shelf_scan_cmd w) (project_root w)")
    case (Inl e)
    with assms(1) show ?thesis
      by (simp add: ShelfScanWorker_run_def shelf_scan_body_def try_except_finally_def
            shelf_scan_spawn_def)
  next
    case (Inr p)
    show ?thesis
    proof (cases "first_read_fault (dropWhile (scan_passes w) (stdout_reads p))")
      case None
      with shelf_run_spawned [OF assms(1) Inr] Inr show ?thesis
        by (simp add: shelf_scan_spawn_def)
    next
      case (Some e)
      with shelf_run_spawned [OF assms(1) Inr] Inr
        no_fault_without_raising_read [of "stdout_reads p" "scan_passes w"]
        forwarded_lines_no_wait [of "takeWhile (scan_passes w) (stdout_reads p)"]
      show ?thesis
        by (auto simp: shelf_scan_spawn_def)
    qed
  qed
next
  show "\<exists>rest. CamDisplayWorker_run env' d =
             Some ([Log (''Executing cam display: '' @ str_join '' '' (cam_display_cmd d)),
                    Popen (cam_display_cmd d) (display_project_root d) (creationflags_of env')]
                   @ rest, None)
           \<and> (\<forall>e. subprocess_Popen env' (cam_display_cmd d) (display_project_root d) = Inl e \<longrightarrow>
                 rest = [Log (''Error running cam_display: '' @ exn_str e), Finished])
           \<and> (\<forall>p. subprocess_Popen env' (cam_display_cmd d) (display_project_root d) = Inr p \<longrightarrow>
                 (first_read_fault (dropWhile read_is_line (stdout_reads p)) = None \<longrightarrow>
                    rest = Log (''cam_display started (pid='' @ str_int (pid p) @ '')'')
                           # map forwarded_line (takeWhile read_is_line (stdout_reads p))
                           @ [ProcessWait,
                              Log (''cam_display exited with code '' @ str_int (returncode p)),
                              Finished])
               \<and> (\<forall>e. first_read_fault (dropWhile read_is_line (stdout_reads p)) = Some e \<longrightarrow>
                    rest = Log (''cam_display started (pid='' @ str_int (pid p) @ '')'')
                           # map forwarded_line (takeWhile read_is_line (stdout_reads p))
                           @ [Log (''Error running cam_display: '' @ exn_str e), Finished]
                    \<and> ProcessWait \<notin> set rest)
               \<and> ((\<forall>r \<in> set (stdout_reads p). \<not> isl (read_result r)) \<longrightarrow>
                    first_read_fault (dropWhile read_is_line (stdout_reads p)) = None))"
  proof (cases "subprocess_Popen env' (cam_display_cmd d) (display_project_root d)")
    case (Inl e)
    with assms(2) show ?thesis
      by (simp add: CamDisplayWorker_run_def cam_display_body_def try_except_finally_def
            cam_display_spawn_def)
  next
    case (Inr p)
    show ?thesis
    proof (cases "first_read_fault (dropWhile read_is_line (stdout_reads p))")
      case None
      with display_run_spawned [OF assms(2) Inr] Inr show ?thesis
        by (simp add: cam_display_spawn_def)
    next
      case (Some e)
      with display_run_spawned [OF assms(2) Inr] Inr
        no_fault_without_raising_read [of "stdout_reads p" read_is_line]
        forwarded_lines_no_wait [of "takeWhile read_is_line (stdout_reads p)"]
      show ?thesis
        by (auto simp: cam_display_spawn_def)
    qed
  qed
qed

theorem tool_workers_announce_and_report_witness:
  "os_path_isfile (sample_tool_env True (Inr sample_process))
     (shelf_scan_path (sample_scan_worker ''setup''))
   \<and> os_path_isfile (sample_tool_env True (Inr sample_process))
       (display_path_of sample_display_worker)
   \<and> subprocess_Popen (sample_tool_env True (Inr sample_process))
        (cam_display_cmd sample_display_worker)
        (display_project_root sample_display_worker) = Inr sample_process
   \<and> list_all (\<lambda>r. \<not> isl (read_result r)) (stdout_reads sample_process)
   \<and> first_read_fault (dropWhile (scan_passes (sample_scan_worker ''setup''))
                          (stdout_reads sample_process)) = None
   \<and> first_read_fault (dropWhile read_is_line (stdout_reads sample_process)) = None
   \<and> ShelfScanWorker_run (sample_tool_env True (Inr sample_process))
        (sample_scan_worker ''setup'') =
      Some ([Log ''Executing with interpreter: py'',
             Log ''Command: py -u /p/product_scan/shelf_scan.py setup'',
             ModeChanged ''setup'',
             Popen [''py'', ''-u'', ''/p/product_scan/shelf_scan.py'', ''setup''] ''/p'' 0,
             Log ''shelf_scan.py (setup) started (pid=41)'', Log ''one'', Log ''two'',
             Log ''three'', ProcessWait, Log ''shelf_scan.py (setup) exited with code 0'',
             Finished], None)
   \<and> CamDisplayWorker_run (sample_tool_env True (Inr sample_process))
        sample_display_worker =
      Some ([Log ''Executing cam display: py -u /p/cam_display/display_camera.py --root-dir /v --title T'',
             Popen [''py'', ''-u'', ''/p/cam_display/display_camera.py'', ''--root-dir'',
                    ''/v'', ''--title'', ''T''] ''/p'' 0,
             Log ''cam_display started (pid=41)'', Log ''one'', Log ''two'',
             Log ''three'', ProcessWait, Log ''cam_display exited with code 0'',
             Finished], None)"
proof -
  let ?env = "sample_tool_env True (Inr sample_process)"
  let ?w = "sample_scan_worker ''setup''"
  let ?d = "sample_display_worker"
  have a: "os_path_isfile ?env (shelf_scan_path ?w)"
    by (simp add: sample_tool_env_def)
  have b: "os_path_isfile ?env (display_path_of ?d)"
    by (simp add: sample_tool_env_def)
  have ps: "subprocess_Popen ?env (shelf_scan_cmd ?w) (project_root ?w) = Inr sample_process"
    by (simp add: sample_tool_env_def)
  have pd: "subprocess_Popen ?env (cam_display_cmd ?d) (display_project_root ?d)
              = Inr sample_process"
    by (simp add: sample_tool_env_def)
  have nr: "\<forall>r \<in> set (stdout_reads sample_process). \<not> isl (read_result r)"
    by (simp add: sample_process_def line_read_def)
  then have nr': "list_all (\<lambda>r. \<not> isl (read_result r)) (stdout_reads sample_process)"
    by (simp add: list_all_iff)
  from tool_workers_announce_and_report [OF a b] ps nr
  have fs: "first_read_fault (dropWhile (scan_passes ?w) (stdout_reads sample_process)) = None"
    by blast
  from tool_workers_announce_and_report [OF a b] pd nr
  have fd: "first_read_fault (dropWhile read_is_line (stdout_reads sample_process)) = None"
    by blast
  have s: "ShelfScanWorker_run ?env ?w =
      Some ([Log ''Executing with interpreter: py'',
             Log ''Command: py -u /p/product_scan/shelf_scan.py setup'',
             ModeChanged ''setup'',
             Popen [''py'', ''-u'', ''/p/product_scan/shelf_scan.py'', ''setup''] ''/p'' 0,
             Log ''shelf_scan.py (setup) started (pid=41)'', Log ''one'', Log ''two'',
             Log ''three'', ProcessWait, Log ''shelf_scan.py (setup) exited with code 0'',
             Finished], None)"
    by code_simp
  have d: "CamDisplayWorker_run ?env ?d =
      Some ([Log ''Executing cam display: py -u /p/cam_display/display_camera.py --root-dir /v --title T'',
             Popen [''py'', ''-u'', ''/p/cam_display/display_camera.py'', ''--root-dir'',
                    ''/v'', ''--title'', ''T''] ''/p'' 0,
             Log ''cam_display started (pid=41)'', Log ''one'', Log ''two'',
             Log ''three'', ProcessWait, Log ''cam_display exited with code 0'',
             Finished], None)"
    by code_simp
  from a b pd nr' fs fd s d show ?thesis by blast
qed

section \<open>What image discovery returns\<close>

text \<open>
  What \<^verbatim>\<open>find_jpg_images\<close> returns: nothing for a path that is no directory, and
  otherwise the directory joined with each entry name that ends in \<^verbatim>\<open>.jpg\<close> up to
  case, the names in ascending order.
\<close>

lemma find_jpg_images_entries:
  "\<not> os_path_isdir fs d \<Longrightarrow> find_jpg_images fs d = Inr []"
  "os_path_isdir fs d \<Longrightarrow> os_listdir fs d = Inr names \<Longrightarrow>
     find_jpg_images fs d = Inr (map (os_path_join d) (filter is_jpg_name (sort names)))"
  by (simp_all add: find_jpg_images_def)

lemma jpg_names_sorted:
  "sorted (filter is_jpg_name (sort names)) \<and>
   set (filter is_jpg_name (sort names)) = {n \<in> set names. is_jpg_name n}"
  by (auto simp: sorted_filter [where f = "\<lambda>x. x", simplified])

text \<open>
  Claim C10: the paths returned are absolute. The docstring of \<^verbatim>\<open>find_jpg_images\<close>
  says so as well, but the function joins each name with the directory as given:
  for the relative directory \<^verbatim>\<open>devices\<close> the paths returned are relative.
\<close>

theorem find_jpg_images_relative:
  "find_jpg_images sample_filesystem ''devices'' = Inr [''devices/a.jpg'', ''devices/b.JPG'']
   \<and> \<not> os_path_isabs ''devices/a.jpg''"
  by code_simp

section \<open>Every worker finishes exactly once\<close>

lemma build_services_events:
  "build_services env root cs acc = (evs, r) \<Longrightarrow> Finished \<notin> set evs"
  by (induction cs arbitrary: acc evs r) (auto simp: Let_def split: sum.splits prod.splits)

lemma build_services_no_finished: "Finished \<notin> set (fst (build_services env root cs acc))"
  using build_services_events [of env root cs acc] by (cases "build_services env root cs acc") simp

lemma start_services_events:
  "start_services ss = (evs, r) \<Longrightarrow> Finished \<notin> set evs"
  by (induction ss arbitrary: evs r rule: start_services.induct)
     (auto simp: Let_def split: option.splits prod.splits)

lemma start_services_no_finished: "Finished \<notin> set (fst (start_services ss))"
  using start_services_events [of ss] by (cases "start_services ss") simp

lemma stop_services_no_finished: "Finished \<notin> set (stop_services ss)"
  by (induction ss rule: stop_services.induct) (auto split: option.splits)

lemma join_services_no_finished: "Finished \<notin> set (join_services ss)"
  by (induction ss rule: join_services.induct) (auto split: option.splits)

lemma camera_server_body_no_finished:
  assumes "camera_server_body env w = Some (evs, r)"
  shows "Finished \<notin> set evs"
proof -
  note nf = build_services_no_finished [of env "root_devices_dir w" "camera_indices w" "[]"]
  show ?thesis
  proof (cases "makedirs_raises env (root_devices_dir w)")
    case (Some e)
    with assms show ?thesis by (auto simp: camera_server_body_def Let_def)
  next
    case None
    show ?thesis
    proof (cases "camera_indices w = []")
      case True
      with None assms show ?thesis by (auto simp: camera_server_body_def Let_def)
    next
      case False
      obtain built res where b: "build_services env (root_devices_dir w) (camera_indices w) [] = (built, res)"
        by (cases "build_services env (root_devices_dir w) (camera_indices w) []")
      with nf have nb: "Finished \<notin> set built" by simp
      show ?thesis
      proof (cases res)
        case (Inl e)
        with None False b nb assms show ?thesis by (auto simp: camera_server_body_def Let_def)
      next
        case (Inr ss)
        obtain started r2 where st: "start_services ss = (started, r2)" by (cases "start_services ss")
        with start_services_no_finished [of ss] have ns: "Finished \<notin> set started" by simp
        show ?thesis
        proof (cases r2)
          case (Some e)
          with None False b nb Inr st ns assms show ?thesis
            by (auto simp: camera_server_body_def Let_def)
        next
          case None2: None
          with None False b nb Inr st ns assms stop_services_no_finished [of ss]
            join_services_no_finished [of ss]
          show ?thesis
            by (auto simp: camera_server_body_def Let_def split: option.splits)
        qed
      qed
    qed
  qed
qed

lemma camera_server_body_returns:
  assumes "stop_event_is_set env k"
  shows "camera_server_body env w \<noteq> None"
proof -
  from assms wait_for_stop_0 [of "stop_event_is_set env" k]
  obtain n where "wait_for_stop (stop_event_is_set env) 0 = Some n" by blast
  then show ?thesis
    by (auto simp: camera_server_body_def Let_def split: option.splits sum.splits prod.splits)
qed

lemma count_list_absent: "x \<notin> set xs \<Longrightarrow> count_list xs x = 0"
  by (induction xs) auto

lemma camera_run_shape:
  assumes "CameraServerWorker_run env w = Some (evs, r)"
  shows "r = None \<and> count_list evs Finished = 1
         \<and> (\<forall>body e. camera_server_body env w = Some (body, Some e) \<longrightarrow>
               Log (''FATAL ERROR:'' @ [CHR 0x0A] @ exn_traceback e) \<in> set evs)"
proof (cases "camera_server_body env w")
  case None
  with assms show ?thesis by (simp add: CameraServerWorker_run_def try_except_finally_def)
next
  case (Some out)
  obtain body res where out: "out = (body, res)" by (cases out)
  from camera_server_body_no_finished [of env w body res] Some out
  have "count_list body Finished = 0" by (simp add: count_list_absent)
  with assms Some out show ?thesis
    by (cases res) (auto simp: CameraServerWorker_run_def try_except_finally_def)
qed

lemma image_run_shape:
  assumes "ImageSourceWorker_run is_set w = Some (evs, r)"
  shows "r = None \<and> count_list evs Finished = 1"
proof -
  have "count_list (image_source_announce w) Finished = 0"
    by (rule count_list_absent) (auto simp: image_source_announce_def)
  with assms show ?thesis
    by (auto simp: ImageSourceWorker_run_def image_source_body_def try_except_finally_def
             split: option.splits)
qed

lemma shelf_run_shape:
  "\<exists>evs. ShelfScanWorker_run env w = Some (evs, None) \<and> count_list evs Finished = 1
        \<and> (\<forall>body e. shelf_scan_body env w = (body, Some e) \<longrightarrow>
              Log (''Error running shelf_scan.py ('' @ mode w @ ''): '' @ exn_str e) \<in> set evs)"
proof -
  show ?thesis
    by (auto simp: ShelfScanWorker_run_def shelf_scan_body_def try_except_finally_def
          shelf_scan_spawn_def shelf_reader_loop_forwards forwarded_lines_no_finished
          split: sum.splits option.splits)
qed

lemma display_run_shape:
  "\<exists>evs. CamDisplayWorker_run env w = Some (evs, None) \<and> count_list evs Finished = 1
        \<and> (\<forall>body e. cam_display_body env w = (body, Some e) \<longrightarrow>
              Log (''Error running cam_display: '' @ exn_str e) \<in> set evs)"
proof -
  show ?thesis
    by (auto simp: CamDisplayWorker_run_def cam_display_body_def try_except_finally_def
          cam_display_spawn_def display_reader_loop_forwards forwarded_lines_no_finished
          split: sum.splits option.splits)
qed

text \<open>
  Claim C4, as stated: in every worker an unhandled fault is logged with a full
  diagnostic trace. In the scan-tool worker below \<^verbatim>\<open>Popen\<close> raises; the handler logs
  the text of the exception only, and no log line of the run contains its traceback.
\<close>

theorem tool_fault_trace_counterexample:
  "ShelfScanWorker_run (sample_tool_env True (Inl sample_fault)) (sample_scan_worker ''setup'') =
     Some ([Log ''Executing with interpreter: py'',
            Log ''Command: py -u /p/product_scan/shelf_scan.py setup'',
            ModeChanged ''setup'',
            Popen [''py'', ''-u'', ''/p/product_scan/shelf_scan.py'', ''setup''] ''/p'' 0,
            Log ''Error running shelf_scan.py (setup): boom'', Finished], None)
   \<and> exn_traceback sample_fault = ''Traceback (most recent call last): RuntimeError: boom''
   \<and> \<not> logs_text (exn_traceback sample_fault)
         (fst (the (ShelfScanWorker_run (sample_tool_env True (Inl sample_fault))
                      (sample_scan_worker ''setup''))))"
  by code_simp

text \<open>
  Claim C4, amended. Every run of a worker that returns raises nothing, and has
  emitted the finished signal exactly once; the two cooperative workers return as
  soon as a poll sees the stop flag (or earlier), the two tool workers return once
  the child's output has ended. A fault in the run body is caught and logged: by
  the capture supervisor with the full traceback, by the scan-tool and the
  display-tool worker with the text of the exception only. (The body of the passive
  source worker makes no call that raises; its handler is the supervisor's, without
  the message box.)
\<close>

theorem every_worker_finishes_once:
  "(\<forall>evs r. CameraServerWorker_run cenv cw = Some (evs, r) \<longrightarrow>
       r = None \<and> count_list evs Finished = 1
       \<and> (\<forall>body e. camera_server_body cenv cw = Some (body, Some e) \<longrightarrow>
             Log (''FATAL ERROR:'' @ [CHR 0x0A] @ exn_traceback e) \<in> set evs))
   \<and> (stop_event_is_set cenv k \<longrightarrow> CameraServerWorker_run cenv cw \<noteq> None)
   \<and> (\<forall>evs r. ImageSourceWorker_run is_set iw = Some (evs, r) \<longrightarrow>
         r = None \<and> count_list evs Finished = 1)
   \<and> (is_set k \<longrightarrow> ImageSourceWorker_run is_set iw \<noteq> None)
   \<and> (\<exists>evs. ShelfScanWorker_run tenv sw = Some (evs, None) \<and> count_list evs Finished = 1
         \<and> (\<forall>body e. shelf_scan_body tenv sw = (body, Some e) \<longrightarrow>
               Log (''Error running shelf_scan.py ('' @ mode sw @ ''): '' @ exn_str e)
                 \<in> set evs))
   \<and> (\<exists>evs. CamDisplayWorker_run tenv dw = Some (evs, None) \<and> count_list evs Finished = 1
         \<and> (\<forall>body e. cam_display_body tenv dw = (body, Some e) \<longrightarrow>
               Log (''Error running cam_display: '' @ exn_str e) \<in> set evs))"
proof (intro conjI)
  show "\<forall>evs r. CameraServerWorker_run cenv cw = Some (evs, r) \<longrightarrow>
       r = None \<and> count_list evs Finished = 1
       \<and> (\<forall>body e. camera_server_body cenv cw = Some (body, Some e) \<longrightarrow>
             Log (''FATAL ERROR:'' @ [CHR 0x0A] @ exn_traceback e) \<in> set evs)"
    using camera_run_shape by blast
  show "stop_event_is_set cenv k \<longrightarrow> CameraServerWorker_run cenv cw \<noteq> None"
    using camera_server_body_returns [of cenv k cw]
    by (auto simp: CameraServerWorker_run_def try_except_finally_def split: option.splits)
  show "\<forall>evs r. ImageSourceWorker_run is_set iw = Some (evs, r) \<longrightarrow>
         r = None \<and> count_list evs Finished = 1"
    using image_run_shape by blast
  show "is_set k \<longrightarrow> ImageSourceWorker_run is_set iw \<noteq> None"
    using wait_for_stop_0 [of is_set k]
    by (auto simp: ImageSourceWorker_run_def image_source_body_def try_except_finally_def)
  show "\<exists>evs. ShelfScanWorker_run tenv sw = Some (evs, None) \<and> count_list evs Finished = 1
         \<and> (\<forall>body e. shelf_scan_body tenv sw = (body, Some e) \<longrightarrow>
               Log (''Error running shelf_scan.py ('' @ mode sw @ ''): '' @ exn_str e)
                 \<in> set evs)"
    by (rule shelf_run_shape)
  show "\<exists>evs. CamDisplayWorker_run tenv dw = Some (evs, None) \<and> count_list evs Finished = 1
         \<and> (\<forall>body e. cam_display_body tenv dw = (body, Some e) \<longrightarrow>
               Log (''Error running cam_display: '' @ exn_str e) \<in> set evs)"
    by (rule display_run_shape)
qed

theorem every_worker_finishes_once_witness:
  "stop_event_is_set failing_camera_env 1
   \<and> CameraServerWorker_run failing_camera_env (CameraServerWorker_init ''/x'' [0]) =
      Some ([Log ''Background Camera Server System'', RunningChanged True,
             Log ''Preparing directory: /x/devices'', Rmtree ''/x/devices'',
             Makedirs ''/x/devices'', Log ''Searching For Valid Cameras...'',
             Log ''Found 1 Cameras'', Log ''Starting Background Services...'',
             Construct ''000'' 0 ''/x/devices/camera_000_frame.jpg'',
             Log (''FATAL ERROR:'' @ [CHR 0x0A] @ exn_traceback sample_fault),
             MessageBoxCritical ''Camera Server Error'' ''boom'',
             RunningChanged False, Finished], None)
   \<and> count_list (fst (the (CameraServerWorker_run failing_camera_env
                              (CameraServerWorker_init ''/x'' [0])))) Finished = 1
   \<and> Log (''FATAL ERROR:'' @ [CHR 0x0A] @ exn_traceback sample_fault)
       \<in> set (fst (the (CameraServerWorker_run failing_camera_env
                          (CameraServerWorker_init ''/x'' [0]))))
   \<and> ImageSourceWorker_run (\<lambda>k. 1 \<le> k) \<lparr>devices_dir = ''/x/devices'', selected_images = []\<rparr>
       \<noteq> None
   \<and> shelf_scan_body (sample_tool_env True (Inl sample_fault)) (sample_scan_worker ''setup'')
       = (shelf_scan_spawn (sample_tool_env True (Inl sample_fault))
            (sample_scan_worker ''setup''), Some sample_fault)
   \<and> count_list (fst (the (ShelfScanWorker_run (sample_tool_env True (Inl sample_fault))
                              (sample_scan_worker ''setup'')))) Finished = 1
   \<and> Log ''Error running shelf_scan.py (setup): boom''
       \<in> set (fst (the (ShelfScanWorker_run (sample_tool_env True (Inl sample_fault))
                          (sample_scan_worker ''setup''))))"
proof -
  let ?w = "CameraServerWorker_init ''/x'' [0]"
  let ?iw = "\<lparr>devices_dir = ''/x/devices'', selected_images = []\<rparr>"
  let ?tenv = "sample_tool_env True (Inl sample_fault)"
  let ?sw = "sample_scan_worker ''setup''"
  have s: "stop_event_is_set failing_camera_env 1" by (simp add: failing_camera_env_def)
  have i: "(\<lambda>k. (1::nat) \<le> k) 1" by simp
  have run: "CameraServerWorker_run failing_camera_env ?w =
      Some ([Log ''Background Camera Server System'', RunningChanged True,
             Log ''Preparing directory: /x/devices'', Rmtree ''/x/devices'',
             Makedirs ''/x/devices'', Log ''Searching For Valid Cameras...'',
             Log ''Found 1 Cameras'', Log ''Starting Background Services...'',
             Construct ''000'' 0 ''/x/devices/camera_000_frame.jpg'',
             Log (''FATAL ERROR:'' @ [CHR 0x0A] @ exn_traceback sample_fault),
             MessageBoxCritical ''Camera Server Error'' ''boom'',
             RunningChanged False, Finished], None)"
    by code_simp
  have body: "camera_server_body failing_camera_env ?w =
      Some ([Log ''Background Camera Server System'', RunningChanged True,
             Log ''Preparing directory: /x/devices'', Rmtree ''/x/devices'',
             Makedirs ''/x/devices'', Log ''Searching For Valid Cameras...'',
             Log ''Found 1 Cameras'', Log ''Starting Background Services...'',
             Construct ''000'' 0 ''/x/devices/camera_000_frame.jpg''], Some sample_fault)"
    by code_simp
  have sbody: "shelf_scan_body ?tenv ?sw = (shelf_scan_spawn ?tenv ?sw, Some sample_fault)"
    by (simp add: shelf_scan_body_def sample_tool_env_def)
  have m: "mode ?sw = ''setup''" "exn_str sample_fault = ''boom''"
    by (simp_all add: sample_scan_worker_def sample_fault_def)
  note all = every_worker_finishes_once
    [of failing_camera_env ?w 1 "\<lambda>k. 1 \<le> k" ?iw ?tenv ?sw]
  from all run body
  have cam: "count_list (fst (the (CameraServerWorker_run failing_camera_env ?w))) Finished = 1
        \<and> Log (''FATAL ERROR:'' @ [CHR 0x0A] @ exn_traceback sample_fault)
            \<in> set (fst (the (CameraServerWorker_run failing_camera_env ?w)))"
    by (metis fst_conv option.sel)
  from all i have img: "ImageSourceWorker_run (\<lambda>k. 1 \<le> k) ?iw \<noteq> None" by blast
  from all obtain evs where e: "ShelfScanWorker_run ?tenv ?sw = Some (evs, None)"
      "count_list evs Finished = 1"
      "\<forall>body e. shelf_scan_body ?tenv ?sw = (body, Some e) \<longrightarrow>
         Log (''Error running shelf_scan.py ('' @ mode ?sw @ ''): '' @ exn_str e) \<in> set evs"
    by blast
  from e(3) sbody have "Log (''Error running shelf_scan.py ('' @ mode ?sw @ ''): ''
                             @ exn_str sample_fault) \<in> set evs"
    by blast
  with m have "Log ''Error running shelf_scan.py (setup): boom'' \<in> set evs" by simp
  with e(1,2) have tool: "count_list (fst (the (ShelfScanWorker_run ?tenv ?sw))) Finished = 1
      \<and> Log ''Error running shelf_scan.py (setup): boom''
          \<in> set (fst (the (ShelfScanWorker_run ?tenv ?sw)))"
    by simp
  from s run cam img sbody tool show ?thesis by blast
qed

section \<open>The capture supervisor calls its services in selection order\<close>

lemma build_services_ok:
  assumes "\<forall>c \<in> set cs. new_service env (str_zfill 3 (str_int c)) c (latest_frame_file root c)
             = Inr (svc c)"
  shows "build_services env root cs acc =
           (map (construct_call root) cs, Inr (acc @ map (\<lambda>c. (c, svc c)) cs))"
  using assms by (induction cs arbitrary: acc) (simp_all add: Let_def construct_call_def)

lemma start_services_ok:
  assumes "\<forall>s \<in> set ss. start_raises (snd s) = None"
  shows "snd (start_services ss) = None
         \<and> service_calls (fst (start_services ss)) = map (\<lambda>s. SvcStart (fst s)) ss"
  using assms
  by (induction ss rule: start_services.induct)
     (auto simp: Let_def service_calls_def split: prod.splits)

lemma stop_services_calls:
  "service_calls (stop_services ss) = map (\<lambda>s. SvcStop (fst s)) ss"
  by (induction ss rule: stop_services.induct)
     (auto simp: service_calls_def split: option.splits)

lemma join_services_calls:
  "service_calls (join_services ss) =
     map (\<lambda>s. ThreadJoin (fst s)) (filter (\<lambda>s. thread (snd s) \<noteq> None) ss)"
  by (induction ss rule: join_services.induct)
     (auto simp: service_calls_def split: option.splits)

lemma service_calls_append: "service_calls (xs @ ys) = service_calls xs @ service_calls ys"
  by (simp add: service_calls_def)

lemma service_calls_constructs:
  "service_calls (map (construct_call root) cs) = map (construct_call root) cs"
  by (induction cs) (simp_all add: service_calls_def construct_call_def)

lemma service_calls_sleeps: "service_calls (replicate n Sleep) = []"
  by (induction n) (simp_all add: service_calls_def)

text \<open>
  Claim C1, as stated: on stop there are exactly \<open>|S|\<close> join attempts. The run below
  has one camera whose service has no thread (the attribute is missing or \<^verbatim>\<open>None\<close>):
  the service is stopped, and the guard of the join loop skips it, so there is no
  join at all.
\<close>

theorem threadless_service_counterexample:
  "CameraServerWorker_run (sample_camera_env threadless_service)
     (CameraServerWorker_init ''/x'' [0]) =
     Some ([Log ''Background Camera Server System'', RunningChanged True,
            Log ''Preparing directory: /x/devices'', Rmtree ''/x/devices'',
            Makedirs ''/x/devices'', Log ''Searching For Valid Cameras...'',
            Log ''Found 1 Cameras'', Log ''Starting Background Services...'',
            Construct ''000'' 0 ''/x/devices/camera_000_frame.jpg'',
            Log ''Starting camera_000 ...'', SvcStart 0, Sleep,
            Log ''All Service Is Running'', Sleep, Log ''Stopping all services...'',
            SvcStop 0, Log ''All Services are Finished.'', RunningChanged False,
            Finished], None)
   \<and> length (filter is_join
        (fst (the (CameraServerWorker_run (sample_camera_env threadless_service)
                     (CameraServerWorker_init ''/x'' [0]))))) = 0
   \<and> length [0::int] = 1"
  by code_simp

text \<open>
  Claim C1, amended. When preparing the directory, constructing the services and
  starting them raise nothing, and a poll sees the stop flag, the run returns and
  its calls on the services are: one construction per index of the selection, in
  order; then one start per index, in order; then one stop per index, in order,
  whether or not a stop raises; then one join for each index whose service has a
  thread, in order, whether or not a join raises.
\<close>

theorem supervisor_calls_in_selection_order:
  assumes mk: "makedirs_raises env (root_devices_dir w) = None"
    and new: "\<forall>c \<in> set (camera_indices w).
                new_service env (str_zfill 3 (str_int c)) c
                  (latest_frame_file (root_devices_dir w) c) = Inr (svc c)"
    and start: "\<forall>c \<in> set (camera_indices w). start_raises (svc c) = None"
    and stop: "stop_event_is_set env k"
  shows "\<exists>evs. CameraServerWorker_run env w = Some (evs, None)
           \<and> service_calls evs =
               map (construct_call (root_devices_dir w)) (camera_indices w)
               @ map SvcStart (camera_indices w)
               @ map SvcStop (camera_indices w)
               @ map ThreadJoin (filter (\<lambda>c. thread (svc c) \<noteq> None) (camera_indices w))"
proof (cases "camera_indices w = []")
  case True
  with mk show ?thesis
    by (simp add: CameraServerWorker_run_def camera_server_body_def try_except_finally_def
          Let_def service_calls_def)
next
  case False
  let ?S = "camera_indices w"
  let ?ss = "map (\<lambda>c. (c, svc c)) ?S"
  from stop wait_for_stop_0 [of "stop_event_is_set env" k]
  obtain n where n: "wait_for_stop (stop_event_is_set env) 0 = Some n" by blast
  have b: "build_services env (root_devices_dir w) ?S [] =
             (map (construct_call (root_devices_dir w)) ?S, Inr ?ss)"
    using build_services_ok [OF new, of "[]"] by simp
  have "\<forall>s \<in> set ?ss. start_raises (snd s) = None" using start by auto
  from start_services_ok [OF this]
  obtain started where st: "start_services ?ss = (started, None)"
    and sc: "service_calls started = map (\<lambda>s. SvcStart (fst s)) ?ss"
    by (cases "start_services ?ss") auto
  have j: "map (\<lambda>s. ThreadJoin (fst s)) (filter (\<lambda>s. thread (snd s) \<noteq> None) ?ss)
           = map ThreadJoin (filter (\<lambda>c. thread (svc c) \<noteq> None) ?S)"
    by (simp add: filter_map comp_def)
  have pre: "service_calls
        [Log ''Background Camera Server System'', RunningChanged True,
         Log (''Preparing directory: '' @ root_devices_dir w), Rmtree (root_devices_dir w),
         Makedirs (root_devices_dir w), Log ''Searching For Valid Cameras...'',
         Log (''Found '' @ str_int (int (length ?S)) @ '' Cameras''),
         Log ''Starting Background Services...''] = []"
    by (simp add: service_calls_def)
  have mid: "service_calls [Log ''All Service Is Running''] = []"
       "service_calls [Log ''Stopping all services...''] = []"
       "service_calls [Log ''All Services are Finished.'', RunningChanged False, Finished] = []"
    by (simp_all add: service_calls_def)
  let ?evs = "[Log ''Background Camera Server System'', RunningChanged True,
         Log (''Preparing directory: '' @ root_devices_dir w), Rmtree (root_devices_dir w),
         Makedirs (root_devices_dir w), Log ''Searching For Valid Cameras...'',
         Log (''Found '' @ str_int (int (length ?S)) @ '' Cameras''),
         Log ''Starting Background Services...'']
        @ map (construct_call (root_devices_dir w)) ?S @ started
        @ [Log ''All Service Is Running''] @ replicate n Sleep
        @ [Log ''Stopping all services...''] @ stop_services ?ss @ join_services ?ss
        @ [Log ''All Services are Finished.'', RunningChanged False, Finished]"
  have run: "CameraServerWorker_run env w = Some (?evs, None)"
    using mk False b st n
    by (simp add: CameraServerWorker_run_def camera_server_body_def try_except_finally_def
          Let_def)
  have "service_calls ?evs =
          map (construct_call (root_devices_dir w)) ?S @ map SvcStart ?S @ map SvcStop ?S
          @ map ThreadJoin (filter (\<lambda>c. thread (svc c) \<noteq> None) ?S)"
    unfolding service_calls_append pre mid service_calls_constructs sc service_calls_sleeps
      stop_services_calls join_services_calls j
    by (simp add: comp_def)
  with run show ?thesis by blast
qed

theorem supervisor_calls_in_selection_order_witness:
  "makedirs_raises (sample_camera_env sample_service) ''/x/devices'' = None
   \<and> stop_event_is_set (sample_camera_env sample_service) 1
   \<and> service_calls (fst (the (CameraServerWorker_run (sample_camera_env sample_service)
                                (CameraServerWorker_init ''/x'' [0, 1])))) =
       [Construct ''000'' 0 ''/x/devices/camera_000_frame.jpg'',
        Construct ''001'' 1 ''/x/devices/camera_001_frame.jpg'',
        SvcStart 0, SvcStart 1, SvcStop 0, SvcStop 1, ThreadJoin 0, ThreadJoin 1]"
proof -
  let ?env = "sample_camera_env sample_service"
  let ?w = "CameraServerWorker_init ''/x'' [0, 1]"
  let ?svc = "\<lambda>c. sample_service\<lparr>camera_id := ''camera_'' @ str_zfill 3 (str_int c)\<rparr>"
  have r: "root_devices_dir ?w = ''/x/devices''" by code_simp
  have S: "camera_indices ?w = [0, 1]" by (simp add: CameraServerWorker_init_def)
  have mk: "makedirs_raises ?env (root_devices_dir ?w) = None"
    by (simp add: sample_camera_env_def)
  have new: "\<forall>c \<in> set (camera_indices ?w).
                new_service ?env (str_zfill 3 (str_int c)) c
                  (latest_frame_file (root_devices_dir ?w) c) = Inr (?svc c)"
    by (simp add: sample_camera_env_def)
  have start: "\<forall>c \<in> set (camera_indices ?w). start_raises (?svc c) = None"
    by (simp add: sample_service_def)
  have stop: "stop_event_is_set ?env 1" by (simp add: sample_camera_env_def)
  have calls: "map (construct_call ''/x/devices'') [0, 1] @ map SvcStart [0, 1]
               @ map SvcStop [0, 1]
               @ map ThreadJoin (filter (\<lambda>c. thread (?svc c) \<noteq> None) [0, 1])
             = [Construct ''000'' 0 ''/x/devices/camera_000_frame.jpg'',
                Construct ''001'' 1 ''/x/devices/camera_001_frame.jpg'',
                SvcStart 0, SvcStart 1, SvcStop 0, SvcStop 1, ThreadJoin 0, ThreadJoin 1]"
    by code_simp
  from supervisor_calls_in_selection_order [OF mk new start stop]
  obtain evs where "CameraServerWorker_run ?env ?w = Some (evs, None)"
    and "service_calls evs =
           map (construct_call (root_devices_dir ?w)) (camera_indices ?w)
           @ map SvcStart (camera_indices ?w) @ map SvcStop (camera_indices ?w)
           @ map ThreadJoin (filter (\<lambda>c. thread (?svc c) \<noteq> None) (camera_indices ?w))"
    by blast
  then have "service_calls (fst (the (CameraServerWorker_run ?env ?w))) =
       [Construct ''000'' 0 ''/x/devices/camera_000_frame.jpg'',
        Construct ''001'' 1 ''/x/devices/camera_001_frame.jpg'',
        SvcStart 0, SvcStart 1, SvcStop 0, SvcStop 1, ThreadJoin 0, ThreadJoin 1]"
    using calls by (simp add: r S)
  with mk stop r show ?thesis by simp
qed

section \<open>One running worker per slot\<close>

lemma consistent_initial: "slots_consistent (initial_window ui)"
  by (simp add: slots_consistent_def initial_window_def)

lemma consistent_source:
  assumes "slots_consistent mw" and "\<not> holder_running mw (active_worker mw)"
    and "slot_of k = SourceSlot"
  shows "slots_consistent (wire_source_worker mw k)"
  unfolding slots_consistent_def
proof (intro allI impI)
  fix i
  assume i: "i < length (threads (wire_source_worker mw k))"
    and run: "isRunning (threads (wire_source_worker mw k) ! i)"
  show "holder_of (wire_source_worker mw k)
          (slot_of (worker (threads (wire_source_worker mw k) ! i))) = Some i"
  proof (cases "i < length (threads mw)")
    case True
    with run have r: "isRunning (threads mw ! i)"
      by (simp add: wire_source_worker_def nth_append)
    with assms(1) True have h: "holder_of mw (slot_of (worker (threads mw ! i))) = Some i"
      by (simp add: slots_consistent_def)
    have "slot_of (worker (threads mw ! i)) \<noteq> SourceSlot"
    proof
      assume "slot_of (worker (threads mw ! i)) = SourceSlot"
      with h have "active_worker mw = Some i" by (simp add: holder_of_def)
      with True r assms(2) show False by (simp add: holder_running_def)
    qed
    with h True show ?thesis
      by (cases "slot_of (worker (threads mw ! i))")
         (simp_all add: wire_source_worker_def nth_append holder_of_def)
  next
    case False
    with i have "i = length (threads mw)" by (simp add: wire_source_worker_def)
    with assms(3) show ?thesis
      by (simp add: wire_source_worker_def holder_of_def new_started_thread_def)
  qed
qed

lemma consistent_start_source:
  assumes "slots_consistent mw"
  shows "slots_consistent (snd (start_source mw))"
  using assms
  by (auto simp: start_source_def Let_def consistent_source
           split: sum.splits option.splits)

lemma consistent_shelf:
  assumes "slots_consistent mw" and "\<not> holder_running mw (shelf_worker mw)"
  shows "slots_consistent (snd (start_shelf_worker mw m before after))"
proof (cases "ShelfScanWorker_init (sys_executable mw) (project_root_dir mw) m
                (Some (sys_executable mw))")
  case (Inl e)
  with assms(1) show ?thesis by (simp add: start_shelf_worker_def)
next
  case (Inr w)
  let ?mw' = "mw\<lparr>shelf_worker := Some (length (threads mw)),
                  threads := threads mw @ [new_started_thread (ShelfScan w)]\<rparr>"
  have "slots_consistent ?mw'"
    unfolding slots_consistent_def
  proof (intro allI impI)
    fix i
    assume i: "i < length (threads ?mw')" and run: "isRunning (threads ?mw' ! i)"
    show "holder_of ?mw' (slot_of (worker (threads ?mw' ! i))) = Some i"
    proof (cases "i < length (threads mw)")
      case True
      with run have r: "isRunning (threads mw ! i)" by (simp add: nth_append)
      with assms(1) True have h: "holder_of mw (slot_of (worker (threads mw ! i))) = Some i"
        by (simp add: slots_consistent_def)
      have "slot_of (worker (threads mw ! i)) \<noteq> ScanToolSlot"
      proof
        assume "slot_of (worker (threads mw ! i)) = ScanToolSlot"
        with h have "shelf_worker mw = Some i" by (simp add: holder_of_def)
        with True r assms(2) show False by (simp add: holder_running_def)
      qed
      with h True show ?thesis
        by (cases "slot_of (worker (threads mw ! i))") (simp_all add: nth_append holder_of_def)
    next
      case False
      with i have "i = length (threads mw)" by simp
      then show ?thesis by (simp add: holder_of_def new_started_thread_def)
    qed
  qed
  with Inr show ?thesis by (simp add: start_shelf_worker_def)
qed

lemma consistent_display:
  assumes "slots_consistent mw" and "\<not> holder_running mw (display_worker mw)"
  shows "slots_consistent
           (mw\<lparr>display_worker := Some (length (threads mw)),
               threads := threads mw @ [new_started_thread (CamDisplay w)]\<rparr>)"
    (is "slots_consistent ?mw'")
  unfolding slots_consistent_def
proof (intro allI impI)
  fix i
  assume i: "i < length (threads ?mw')" and run: "isRunning (threads ?mw' ! i)"
  show "holder_of ?mw' (slot_of (worker (threads ?mw' ! i))) = Some i"
  proof (cases "i < length (threads mw)")
    case True
    with run have r: "isRunning (threads mw ! i)" by (simp add: nth_append)
    with assms(1) True have h: "holder_of mw (slot_of (worker (threads mw ! i))) = Some i"
      by (simp add: slots_consistent_def)
    have "slot_of (worker (threads mw ! i)) \<noteq> DisplayToolSlot"
    proof
      assume "slot_of (worker (threads mw ! i)) = DisplayToolSlot"
      with h have "display_worker mw = Some i" by (simp add: holder_of_def)
      with True r assms(2) show False by (simp add: holder_running_def)
    qed
    with h True show ?thesis
      by (cases "slot_of (worker (threads mw ! i))") (simp_all add: nth_append holder_of_def)
  next
    case False
    with i have "i = length (threads mw)" by simp
    then show ?thesis by (simp add: holder_of_def new_started_thread_def)
  qed
qed

lemma consistent_start_cam_display:
  assumes "slots_consistent mw"
  shows "slots_consistent (snd (start_cam_display r mw))"
  using assms consistent_display
  by (auto simp: start_cam_display_def Let_def split: option.splits)

lemma stop_request_keeps_thread:
  "i < length ts \<Longrightarrow>
   isRunning (ts[j := (ts ! j)\<lparr>stop_requested := True\<rparr>] ! i) = isRunning (ts ! i)
   \<and> worker (ts[j := (ts ! j)\<lparr>stop_requested := True\<rparr>] ! i) = worker (ts ! i)"
  by (cases "i = j") simp_all

lemma consistent_request_stop:
  assumes "slots_consistent mw"
  shows "slots_consistent (request_stop_at mw j)"
  using assms
  by (simp add: slots_consistent_def request_stop_at_def holder_of_def stop_request_keeps_thread
           split: slot.splits)

lemma consistent_thread_exit:
  assumes "slots_consistent mw"
  shows "slots_consistent (thread_exit j mw)"
  using assms
  by (auto simp: slots_consistent_def thread_exit_def holder_of_def nth_list_update
           split: slot.splits if_splits)

lemma consistent_set_inputs:
  assumes "slots_consistent mw"
  shows "slots_consistent (set_inputs ui mw)"
  using assms by (simp add: slots_consistent_def set_inputs_def holder_of_def split: slot.splits)

lemma consistent_perform:
  assumes "slots_consistent mw"
  shows "slots_consistent (perform a mw)"
proof (cases a)
  case StartSource
  with assms show ?thesis by (simp add: consistent_start_source)
next
  case StopSource
  with assms show ?thesis by (simp add: stop_source_def consistent_request_stop)
next
  case RunShelfSetup
  with assms show ?thesis by (simp add: run_shelf_setup_def consistent_shelf)
next
  case StartShelfService
  with assms show ?thesis by (simp add: start_shelf_service_def consistent_shelf)
next
  case StopShelfService
  with assms show ?thesis by (simp add: stop_shelf_service_def consistent_request_stop)
next
  case (StartCamDisplay r)
  with assms show ?thesis by (simp add: consistent_start_cam_display)
next
  case StopCamDisplay
  with assms show ?thesis by (simp add: stop_cam_display_def)
next
  case (ThreadExit j)
  with assms show ?thesis by (simp add: consistent_thread_exit)
next
  case (SetInputs ui)
  with assms show ?thesis by (simp add: consistent_set_inputs)
qed

lemma consistent_foldl:
  "slots_consistent mw \<Longrightarrow> slots_consistent (foldl (\<lambda>mw a. perform a mw) mw acts)"
  by (induction acts arbitrary: mw) (simp_all add: consistent_perform)

lemma consistent_window_after: "slots_consistent (window_after ui acts)"
  by (simp add: window_after_def consistent_foldl consistent_initial)

lemma running_in_at_most_one:
  assumes "slots_consistent mw"
  shows "length (running_in mw s) \<le> 1"
proof -
  have d: "distinct (running_in mw s)" by (simp add: running_in_def)
  have sub: "\<forall>i \<in> set (running_in mw s). holder_of mw s = Some i"
    using assms by (auto simp: running_in_def slots_consistent_def)
  show ?thesis
  proof (cases "holder_of mw s")
    case None
    with sub have "set (running_in mw s) = {}" by auto
    then show ?thesis by simp
  next
    case (Some a)
    with sub have "set (running_in mw s) \<subseteq> {a}" by auto
    then have "card (set (running_in mw s)) \<le> card {a}"
      by (intro card_mono) simp_all
    with d show ?thesis by (simp add: distinct_card)
  qed
qed

text \<open>
  Claim C6. A start request for a slot whose holder refers to a running worker
  (\<^verbatim>\<open>start_source\<close>, \<^verbatim>\<open>run_shelf_setup\<close>, \<^verbatim>\<open>start_shelf_service\<close>, \<^verbatim>\<open>start_cam_display\<close>) only
  shows the information box that reports the slot as busy: the window, its holders
  and every worker object are left as they were, and no worker is constructed. After
  any sequence of user actions and thread exits, each slot has at most one worker
  whose thread is running.
\<close>

theorem busy_slot_rejects_start:
  "(holder_running mw (active_worker mw) \<longrightarrow>
      start_source mw = ([InformationBox ''Running'' ''Source is already running.''], mw))
   \<and> (holder_running mw (shelf_worker mw) \<longrightarrow>
      run_shelf_setup mw = ([InformationBox ''Shelf'' ''Another shelf_scan is running.''], mw)
      \<and> start_shelf_service mw =
          ([InformationBox ''Shelf Service'' ''Shelf service already running.''], mw))
   \<and> (holder_running mw (display_worker mw) \<longrightarrow>
      start_cam_display r mw =
        ([InformationBox ''Cam Display'' ''Cam display already running.''], mw))
   \<and> length (running_in (window_after ui acts) s) \<le> 1"
  using running_in_at_most_one [OF consistent_window_after, of ui acts s]
  by (simp add: start_source_def run_shelf_setup_def start_shelf_service_def
        start_cam_display_def)


theorem busy_slot_rejects_start_witness:
  "holder_running (window_after sample_window [StartSource, RunShelfSetup, StartCamDisplay None])
     (active_worker (window_after sample_window [StartSource, RunShelfSetup, StartCamDisplay None]))
   \<and> holder_running (window_after sample_window [StartSource, RunShelfSetup, StartCamDisplay None])
     (shelf_worker (window_after sample_window [StartSource, RunShelfSetup, StartCamDisplay None]))
   \<and> holder_running (window_after sample_window [StartSource, RunShelfSetup, StartCamDisplay None])
     (display_worker (window_after sample_window [StartSource, RunShelfSetup, StartCamDisplay None]))
   \<and> fst (start_source (window_after sample_window [StartSource, RunShelfSetup, StartCamDisplay None]))
       = [InformationBox ''Running'' ''Source is already running.'']
   \<and> window_after sample_window
        [StartSource, RunShelfSetup, StartCamDisplay None, StartSource, StartShelfService,
         StartCamDisplay None]
       = window_after sample_window [StartSource, RunShelfSetup, StartCamDisplay None]
   \<and> running_in (window_after sample_window
        [StartSource, RunShelfSetup, StartCamDisplay None, StartSource, StartShelfService,
         StartCamDisplay None]) ScanToolSlot = [1]"
proof -
  let ?mw = "window_after sample_window [StartSource, RunShelfSetup, StartCamDisplay None]"
  have a: "holder_running ?mw (active_worker ?mw)" by code_simp
  have b: "holder_running ?mw (shelf_worker ?mw)" by code_simp
  have c: "holder_running ?mw (display_worker ?mw)" by code_simp
  from busy_slot_rejects_start [of ?mw None] a b c
  have s: "start_source ?mw = ([InformationBox ''Running'' ''Source is already running.''], ?mw)"
    and h: "start_shelf_service ?mw =
          ([InformationBox ''Shelf Service'' ''Shelf service already running.''], ?mw)"
    and d: "start_cam_display None ?mw =
        ([InformationBox ''Cam Display'' ''Cam display already running.''], ?mw)"
    by blast+
  have ext: "window_after sample_window
        [StartSource, RunShelfSetup, StartCamDisplay None, StartSource, StartShelfService,
         StartCamDisplay None]
      = perform (StartCamDisplay None) (perform StartShelfService (perform StartSource ?mw))"
    by (simp add: window_after_def)
  have same: "window_after sample_window
        [StartSource, RunShelfSetup, StartCamDisplay None, StartSource, StartShelfService,
         StartCamDisplay None] = ?mw"
    unfolding ext by (simp add: s h d)
  have r: "running_in ?mw ScanToolSlot = [1]" by code_simp
  from a b c s same r show ?thesis by simp
qed

section \<open>Splitting and joining\<close>








lemma str_join_hd:
  "cs \<noteq> [] \<Longrightarrow> hd cs \<noteq> [] \<Longrightarrow> hd (str_join sep cs) = hd (hd cs)"
  by (induction sep cs rule: str_join.induct) auto











section \<open>\<^verbatim>\<open>normpath\<close> and the device directory\<close>


























section \<open>Windows paths on a lettered drive\<close>

lemma nt_sep_not_slash: "nt_sep \<noteq> CHR ''/''" "nt_sep \<noteq> CHR '':''"
  by (simp_all add: nt_sep_def)




lemma to_backslashes_no_slash: "CHR ''/'' \<notin> set (to_backslashes p)"
  using nt_sep_not_slash by (auto simp: to_backslashes_def)

lemma to_backslashes_id: "CHR ''/'' \<notin> set p \<Longrightarrow> to_backslashes p = p"
  by (induction p) (auto simp: to_backslashes_def)

lemma to_backslashes_idem: "to_backslashes (to_backslashes p) = to_backslashes p"
  by (rule to_backslashes_id) (rule to_backslashes_no_slash)














lemma nt_root_root: "nt_root (hd (nt_root d)) = nt_root d"
  using nt_sep_not_slash by (simp add: nt_root_def)















section \<open>Normalising the device directory twice\<close>












text \<open>
  The paths left out above: the empty path and every path that \<^verbatim>\<open>normpath\<close> sends to
  \<^verbatim>\<open>.\<close> get \<^verbatim>\<open>./devices\<close>, which is not in normal form, and a second normalisation
  turns it into \<^verbatim>\<open>devices\<close>. And the window's function strips before it normalises:
  a result that starts with a blank loses it the second time.
\<close>

lemma normalize_dot_twice:
  "normalize_devices_dir [] = ''./devices''
   \<and> normalize_devices_dir (normalize_devices_dir []) = ''devices''
   \<and> get_devices_dir_normalized ''./ a'' = '' a/devices''
   \<and> get_devices_dir_normalized (get_devices_dir_normalized ''./ a'') = ''a/devices''"
  by code_simp

end
